theory Spec2Isabelle
  imports Main "HOL-Library.Char_ord" "HOL-Library.List_Lexorder" "HOL-Library.Multiset"
begin

section \<open>JavaScript values\<close>

text \<open>
  The program is a Node.js server (the JavaScript entry point, with a TypeScript variant in
  \<^verbatim>\<open>index.ts\<close>). Its parameter mappings and the exchange's JSON responses are JavaScript
  values. A Number is either \<open>NaN\<close> or an element of an ordered type \<open>'n\<close> (the doubles
  other than \<open>NaN\<close>, with the two zeros identified); comparisons with \<open>NaN\<close> are false.
  A string is the list of its code units; the model covers the texts whose code units are
  below 256, so that indexing, comparison and splitting are those of JavaScript.
\<close>

datatype 'n number = NaN | Fin 'n

datatype 'n jsval =
    Undefined
  | Null
  | JBool bool
  | JNum "'n number"
  | JStr string
  | JArr "'n jsval list"
  | JObj "(string \<times> 'n jsval) list"

text \<open>An object is the list of its own properties in creation order; names are distinct.\<close>

type_synonym 'n jsobj = "(string \<times> 'n jsval) list"

fun join :: "string \<Rightarrow> string list \<Rightarrow> string" where
  "join sep [] = []"
| "join sep [x] = x"
| "join sep (x # y # ys) = x @ sep @ join sep (y # ys)"

text \<open>
  \<open>ToString\<close>, as applied by \<^verbatim>\<open>encodeURIComponent\<close>, template literals and
  \<^verbatim>\<open>parseFloat\<close>. The rendering of a Number other than \<open>NaN\<close> is the runtime's
  (\<open>ns\<close>). An array is rendered as \<^verbatim>\<open>join(",")\<close> does, with \<^verbatim>\<open>null\<close> and
  \<^verbatim>\<open>undefined\<close> elements empty. An object is rendered by \<^verbatim>\<open>Object.prototype.toString\<close>;
  the model covers the objects that have no property named \<^verbatim>\<open>toString\<close> or
  \<^verbatim>\<open>valueOf\<close> of their own.
\<close>

fun toString :: "('n \<Rightarrow> string) \<Rightarrow> 'n jsval \<Rightarrow> string" where
  "toString ns Undefined = ''undefined''"
| "toString ns Null = ''null''"
| "toString ns (JBool b) = (if b then ''true'' else ''false'')"
| "toString ns (JNum NaN) = ''NaN''"
| "toString ns (JNum (Fin x)) = ns x"
| "toString ns (JStr s) = s"
| "toString ns (JArr xs) =
     join '','' (map (\<lambda>x. if x = Undefined \<or> x = Null then [] else toString ns x) xs)"
| "toString ns (JObj ps) = ''[object Object]''"

subsection \<open>Objects\<close>

definition get_prop :: "'n jsobj \<Rightarrow> string \<Rightarrow> 'n jsval" where
  "get_prop obj k = (case map_of obj k of None \<Rightarrow> Undefined | Some v \<Rightarrow> v)"

text \<open>
  A property is defined or overwritten, as by an object literal, by a spread, and by the
  assignment of a name other than \<^verbatim>\<open>__proto__\<close>: an existing property keeps its place, a
  new one is created last.
\<close>

fun set_prop :: "'n jsobj \<Rightarrow> string \<Rightarrow> 'n jsval \<Rightarrow> 'n jsobj" where
  "set_prop [] k v = [(k, v)]"
| "set_prop ((k', v') # ps) k v =
     (if k' = k then (k, v) # ps else (k', v') # set_prop ps k v)"

text \<open>
  \<^verbatim>\<open>obj[k] = v\<close> on an object that \<^verbatim>\<open>{}\<close> created and that has no property
  \<^verbatim>\<open>__proto__\<close> of its own. The name \<^verbatim>\<open>__proto__\<close> reaches the setter that
  \<^verbatim>\<open>Object.prototype\<close> has for it, which creates no property; any other name is defined.
\<close>

definition assign :: "'n jsobj \<Rightarrow> string \<Rightarrow> 'n jsval \<Rightarrow> 'n jsobj" where
  "assign obj k v = (if k = ''__proto__'' then obj else set_prop obj k v)"

definition is_digit :: "char \<Rightarrow> bool" where
  "is_digit c = (CHR ''0'' \<le> c \<and> c \<le> CHR ''9'')"

definition dec_value :: "string \<Rightarrow> int" where
  "dec_value s = foldl (\<lambda>n c. 10 * n + (of_char c - of_char CHR ''0'')) 0 s"

text \<open>
  An array index is the canonical decimal rendering of an integer below \<open>2^32 - 1\<close>.
  The own property keys of an object are enumerated (\<^verbatim>\<open>Object.keys\<close>,
  \<^verbatim>\<open>Object.entries\<close>, spread) with the array indices first, in ascending numeric order,
  and then the other names in creation order.
\<close>

definition is_array_index :: "string \<Rightarrow> bool" where
  "is_array_index s =
     (s \<noteq> [] \<and> list_all is_digit s \<and> (hd s = CHR ''0'' \<longrightarrow> length s = 1)
      \<and> dec_value s < 4294967295)"

definition own_keys :: "'n jsobj \<Rightarrow> string list" where
  "own_keys obj =
     (let ks = map fst obj
      in sort_key dec_value (filter is_array_index ks) @ filter (\<lambda>k. \<not> is_array_index k) ks)"

definition entries :: "'n jsobj \<Rightarrow> (string \<times> 'n jsval) list" where
  "entries obj = map (\<lambda>k. (k, get_prop obj k)) (own_keys obj)"

subsection \<open>Percent encoding\<close>

text \<open>
  \<^verbatim>\<open>encodeURIComponent\<close> keeps the letters, the digits and \<^verbatim>\<open>- _ . ! ~ * ' ( )\<close>, and
  writes every byte of the UTF-8 encoding of any other character as \<^verbatim>\<open>%XX\<close> in
  upper-case hexadecimal: one byte for a code unit below 128, two bytes for the others.
\<close>

definition unreserved :: "char \<Rightarrow> bool" where
  "unreserved c =
     ((CHR ''A'' \<le> c \<and> c \<le> CHR ''Z'') \<or> (CHR ''a'' \<le> c \<and> c \<le> CHR ''z'') \<or> is_digit c
      \<or> c \<in> set ''-_.!~*()'' \<or> c = CHR 0x27)"

definition hex_digit :: "nat \<Rightarrow> char" where
  "hex_digit n = ''0123456789ABCDEF'' ! (n mod 16)"

definition percent :: "nat \<Rightarrow> string" where
  "percent n = [CHR ''%'', hex_digit (n div 16), hex_digit (n mod 16)]"

definition encode_unit :: "char \<Rightarrow> string" where
  "encode_unit c =
     (let n = of_char c
      in if unreserved c then [c]
         else if n < 128 then percent n
         else percent (192 + n div 64) @ percent (128 + n mod 64))"

definition encodeURIComponent :: "string \<Rightarrow> string" where
  "encodeURIComponent s = concat (map encode_unit s)"

section \<open>The runtime and the outside world\<close>

text \<open>
  What the program takes from its libraries and its environment: the keyed hash
  (\<^verbatim>\<open>CryptoJS.HmacSHA256(message, key).toString(CryptoJS.enc.Hex)\<close>), the rendering and
  the parsing of Numbers, \<^verbatim>\<open>String.prototype.toUpperCase\<close>,
  \<^verbatim>\<open>JSON.stringify(value, null, 2)\<close>, the two credentials, the clock and the HTTP
  client. The clock and the client answer from the requests issued so far. A promise is
  modelled by the way it settles: the moment at which it does, and either the reason of
  the rejection or the value.
\<close>

record 'n request =
  http_method :: string
  url :: string
  headers :: "(string \<times> string) list"
  query :: "'n jsobj option"
  body :: "'n jsobj option"

datatype 'n exn =
    AxiosError string "'n jsval option"
  | TypeError string
  | ReferenceError string

type_synonym 'n promise = "nat \<times> ('n exn + 'n jsval)"

record 'n runtime =
  HmacSHA256 :: "string \<Rightarrow> string \<Rightarrow> string"
  numToString :: "'n \<Rightarrow> string"
  parseFloat :: "string \<Rightarrow> 'n number"
  toUpperCase :: "string \<Rightarrow> string"
  JSON_stringify :: "'n jsval \<Rightarrow> string"
  API_KEY :: string
  SECRET_KEY :: string
  Date_now :: "'n request list \<Rightarrow> 'n"
  axios :: "'n request list \<Rightarrow> 'n request \<Rightarrow> 'n promise"

text \<open>The message of the \<^verbatim>\<open>TypeError\<close> that Node.js throws on reading a property of nothing.\<close>

definition cannot_read :: "string \<Rightarrow> string \<Rightarrow> string" where
  "cannot_read what k =
     ''Cannot read properties of '' @ what @ '' (reading '' @ [CHR 0x27] @ k @ [CHR 0x27] @ '')''"

section \<open>Signer\<close>

text \<open>
  \<^verbatim>\<open>generateSignature(params, secretKey)\<close> of the JavaScript entry point: the keys are
  sorted, the properties whose value is not the empty string are assigned to a new object
  in that order, and the entries of the new object are rendered and joined.
\<close>

definition orderedParams :: "'n jsobj \<Rightarrow> 'n jsobj" where
  "orderedParams params =
     foldl (\<lambda>obj key. if get_prop params key \<noteq> JStr [] then assign obj key (get_prop params key)
                       else obj)
       [] (sort (own_keys params))"

definition queryString :: "('n \<Rightarrow> string) \<Rightarrow> 'n jsobj \<Rightarrow> string" where
  "queryString ns params =
     join ''&'' (map (\<lambda>(key, val). key @ ''='' @ encodeURIComponent (toString ns val))
                   (entries (orderedParams params)))"

definition generateSignature :: "'n runtime \<Rightarrow> 'n jsobj \<Rightarrow> string \<Rightarrow> string" where
  "generateSignature rt params secretKey =
     HmacSHA256 rt (queryString (numToString rt) params) secretKey"

text \<open>
  The same function in \<^verbatim>\<open>index.ts\<close>: every property is assigned, whatever its value, and
  no value is encoded.
\<close>

definition orderedParams_ts :: "'n jsobj \<Rightarrow> 'n jsobj" where
  "orderedParams_ts params =
     foldl (\<lambda>obj key. assign obj key (get_prop params key)) [] (sort (own_keys params))"

definition queryString_ts :: "('n \<Rightarrow> string) \<Rightarrow> 'n jsobj \<Rightarrow> string" where
  "queryString_ts ns params =
     join ''&'' (map (\<lambda>(key, val). key @ ''='' @ toString ns val)
                   (entries (orderedParams_ts params)))"

definition generateSignature_ts :: "'n runtime \<Rightarrow> 'n jsobj \<Rightarrow> string \<Rightarrow> string" where
  "generateSignature_ts rt params secretKey =
     HmacSHA256 rt (queryString_ts (numToString rt) params) secretKey"


section \<open>Request Dispatcher\<close>

definition BASE_URL :: string where
  "BASE_URL = ''https://open-api.bingx.com''"

text \<open>\<^verbatim>\<open>{ ...params, timestamp }\<close>: the own properties in enumeration order, then the timestamp.\<close>

definition fullParams :: "'n jsobj \<Rightarrow> 'n \<Rightarrow> 'n jsobj" where
  "fullParams params timestamp = set_prop (entries params) ''timestamp'' (JNum (Fin timestamp))"

text \<open>The \<^verbatim>\<open>config\<close> object that \<^verbatim>\<open>makeRequest\<close> hands to the HTTP client.\<close>

definition config :: "'n runtime \<Rightarrow> string \<Rightarrow> string \<Rightarrow> 'n jsobj \<Rightarrow> 'n \<Rightarrow> 'n request" where
  "config rt method endpoint params timestamp =
     (let signature =
            (if length (own_keys params) = 0 \<and> method = ''GET''
             then generateSignature rt [(''timestamp'', JNum (Fin timestamp))] (SECRET_KEY rt)
             else generateSignature rt (fullParams params timestamp) (SECRET_KEY rt));
          signed = set_prop (fullParams params timestamp) ''signature'' (JStr signature)
      in \<lparr> http_method = method,
           url = BASE_URL @ endpoint,
           headers = [(''X-BX-APIKEY'', API_KEY rt)],
           query = (if method = ''GET'' then Some signed else None),
           body = (if method = ''GET'' then None else Some signed) \<rparr>)"

text \<open>
  \<^verbatim>\<open>makeRequest(method, endpoint, params)\<close>: the request is issued, and the promise is
  fulfilled with the response data or rejected with the client's error, which the
  \<^verbatim>\<open>catch\<close> block logs and throws again.
\<close>

definition makeRequest ::
  "'n runtime \<Rightarrow> string \<Rightarrow> string \<Rightarrow> 'n jsobj \<Rightarrow> 'n request list \<Rightarrow> 'n promise \<times> 'n request list" where
  "makeRequest rt method endpoint params sent =
     (let c = config rt method endpoint params (Date_now rt sent)
      in (axios rt sent c, sent @ [c]))"

text \<open>
  The dispatcher of \<^verbatim>\<open>index.ts\<close>: the API key is one of the signed and transmitted
  parameters, every request carries them in the query string, and the \<^verbatim>\<open>catch\<close>
  block reads \<^verbatim>\<open>error.response.data\<close> without a guard.
\<close>

definition fullParams_ts :: "'n runtime \<Rightarrow> 'n jsobj \<Rightarrow> 'n \<Rightarrow> 'n jsobj" where
  "fullParams_ts rt params timestamp =
     set_prop (set_prop (entries params) ''timestamp'' (JNum (Fin timestamp)))
       ''apiKey'' (JStr (API_KEY rt))"

definition config_ts :: "'n runtime \<Rightarrow> string \<Rightarrow> string \<Rightarrow> 'n jsobj \<Rightarrow> 'n \<Rightarrow> 'n request" where
  "config_ts rt method endpoint params timestamp =
     (let signature = generateSignature_ts rt (fullParams_ts rt params timestamp) (SECRET_KEY rt);
          signed = set_prop (fullParams_ts rt params timestamp) ''signature'' (JStr signature)
      in \<lparr> http_method = method,
           url = BASE_URL @ endpoint,
           headers = [],
           query = Some signed,
           body = None \<rparr>)"

definition makeRequest_ts ::
  "'n runtime \<Rightarrow> string \<Rightarrow> string \<Rightarrow> 'n jsobj \<Rightarrow> 'n request list \<Rightarrow> 'n promise \<times> 'n request list" where
  "makeRequest_ts rt method endpoint params sent =
     (let c = config_ts rt method endpoint params (Date_now rt sent)
      in (case axios rt sent c of
            (t, Inl (AxiosError m None)) \<Rightarrow>
              (t, Inl (TypeError (cannot_read ''undefined'' ''data'')))
          | r \<Rightarrow> r,
          sent @ [c]))"

section \<open>Exchange Operations\<close>

definition getAccountBalance :: "'n runtime \<Rightarrow> 'n request list \<Rightarrow> 'n promise \<times> 'n request list" where
  "getAccountBalance rt = makeRequest rt ''GET'' ''/openApi/swap/v2/user/balance'' []"

text \<open>
  In each of the next two functions the source has a second \<^verbatim>\<open>return\<close> statement after
  the first; control never reaches it.
\<close>

definition getOpenPositions :: "'n runtime \<Rightarrow> 'n request list \<Rightarrow> 'n promise \<times> 'n request list" where
  "getOpenPositions rt = makeRequest rt ''GET'' ''/openApi/contract/v1/allPosition'' []"

definition getPendingOrders :: "'n runtime \<Rightarrow> 'n request list \<Rightarrow> 'n promise \<times> 'n request list" where
  "getPendingOrders rt = makeRequest rt ''GET'' ''/openApi/contract/v1/allOrders'' []"

definition closePosition ::
  "'n runtime \<Rightarrow> 'n jsval \<Rightarrow> 'n jsval \<Rightarrow> 'n request list \<Rightarrow> 'n promise \<times> 'n request list" where
  "closePosition rt symbol positionSide =
     makeRequest rt ''POST'' ''/openApi/swap/v2/trade/closePosition''
       [(''symbol'', symbol), (''positionSide'', positionSide)]"

definition cancelOrder ::
  "'n runtime \<Rightarrow> 'n jsval \<Rightarrow> 'n jsval \<Rightarrow> 'n request list \<Rightarrow> 'n promise \<times> 'n request list" where
  "cancelOrder rt symbol orderId =
     makeRequest rt ''POST'' ''/openApi/swap/v2/trade/cancelOrder''
       [(''symbol'', symbol), (''orderId'', orderId)]"

definition setTrailingStop ::
  "'n runtime \<Rightarrow> 'n jsval \<Rightarrow> 'n jsval \<Rightarrow> 'n jsval \<Rightarrow> 'n request list \<Rightarrow> 'n promise \<times> 'n request list" where
  "setTrailingStop rt symbol activationPrice callbackRate =
     makeRequest rt ''POST'' ''/openApi/swap/v2/trade/order''
       [(''symbol'', symbol), (''type'', JStr ''TRAILING_STOP_MARKET''),
        (''activationPrice'', activationPrice), (''callbackRate'', callbackRate)]"

definition setStopLoss ::
  "'n runtime \<Rightarrow> 'n jsval \<Rightarrow> 'n jsval \<Rightarrow> 'n request list \<Rightarrow> 'n promise \<times> 'n request list" where
  "setStopLoss rt symbol stopPrice =
     makeRequest rt ''POST'' ''/openApi/swap/v2/trade/order''
       [(''symbol'', symbol), (''type'', JStr ''STOP_MARKET''), (''stopPrice'', stopPrice)]"

definition setTakeProfit ::
  "'n runtime \<Rightarrow> 'n jsval \<Rightarrow> 'n jsval \<Rightarrow> 'n request list \<Rightarrow> 'n promise \<times> 'n request list" where
  "setTakeProfit rt symbol stopPrice =
     makeRequest rt ''POST'' ''/openApi/swap/v2/trade/order''
       [(''symbol'', symbol), (''type'', JStr ''TAKE_PROFIT_MARKET''), (''stopPrice'', stopPrice)]"

text \<open>The global \<^verbatim>\<open>parseFloat\<close> converts its argument to a string first.\<close>

definition js_parseFloat :: "'n runtime \<Rightarrow> 'n jsval \<Rightarrow> 'n number" where
  "js_parseFloat rt v = parseFloat rt (toString (numToString rt) v)"

definition placeMarketOrder ::
  "'n runtime \<Rightarrow> 'n jsval \<Rightarrow> 'n jsval \<Rightarrow> 'n jsval \<Rightarrow> 'n request list \<Rightarrow> 'n promise \<times> 'n request list" where
  "placeMarketOrder rt symbol side quantity =
     makeRequest rt ''POST'' ''/openApi/contract/v1/trade/order''
       [(''symbol'', symbol), (''side'', side), (''orderType'', JStr ''MARKET''),
        (''quantity'', JNum (js_parseFloat rt quantity))]"

definition placeLimitOrder ::
  "'n runtime \<Rightarrow> 'n jsval \<Rightarrow> 'n jsval \<Rightarrow> 'n jsval \<Rightarrow> 'n jsval \<Rightarrow> 'n request list
     \<Rightarrow> 'n promise \<times> 'n request list" where
  "placeLimitOrder rt symbol side quantity price =
     makeRequest rt ''POST'' ''/openApi/swap/v2/trade/order''
       [(''symbol'', symbol), (''side'', side), (''type'', JStr ''LIMIT''),
        (''quantity'', JNum (js_parseFloat rt quantity)), (''price'', price)]"

definition closePosition_ts ::
  "'n runtime \<Rightarrow> 'n jsval \<Rightarrow> 'n jsval \<Rightarrow> 'n request list \<Rightarrow> 'n promise \<times> 'n request list" where
  "closePosition_ts rt symbol positionSide =
     makeRequest_ts rt ''POST'' ''/openApi/swap/v2/trade/closePosition''
       [(''symbol'', symbol), (''positionSide'', positionSide)]"

definition getAccountBalance_ts :: "'n runtime \<Rightarrow> 'n request list \<Rightarrow> 'n promise \<times> 'n request list" where
  "getAccountBalance_ts rt = makeRequest_ts rt ''GET'' ''/openApi/swap/v2/user/balance'' []"

definition placeMarketOrder_ts ::
  "'n runtime \<Rightarrow> 'n jsval \<Rightarrow> 'n jsval \<Rightarrow> 'n jsval \<Rightarrow> 'n request list \<Rightarrow> 'n promise \<times> 'n request list" where
  "placeMarketOrder_ts rt symbol side quantity =
     makeRequest_ts rt ''POST'' ''/openApi/swap/v2/trade/order''
       [(''symbol'', symbol), (''side'', side), (''type'', JStr ''MARKET''),
        (''quantity'', quantity)]"

section \<open>Reading the exchange's answers\<close>

text \<open>
  \<^verbatim>\<open>v.k\<close> and \<^verbatim>\<open>v[k]\<close>, for the names the program reads (\<^verbatim>\<open>data\<close>, \<^verbatim>\<open>price\<close>,
  \<^verbatim>\<open>symbol\<close>, \<^verbatim>\<open>positionSide\<close>, \<^verbatim>\<open>orderId\<close>, \<^verbatim>\<open>0\<close>, \<^verbatim>\<open>4\<close>): reading a
  property of \<^verbatim>\<open>undefined\<close> or \<^verbatim>\<open>null\<close> throws, an array or a string has its elements
  at its indices, and any other read gives \<^verbatim>\<open>undefined\<close>. The text of a \<^verbatim>\<open>TypeError\<close>
  is the one that Node.js gives.
\<close>

fun member :: "'n jsval \<Rightarrow> string \<Rightarrow> 'n exn + 'n jsval" where
  "member Undefined k = Inl (TypeError (cannot_read ''undefined'' k))"
| "member Null k = Inl (TypeError (cannot_read ''null'' k))"
| "member (JObj ps) k = Inr (get_prop ps k)"
| "member (JArr xs) k =
     Inr (if is_array_index k \<and> nat (dec_value k) < length xs then xs ! nat (dec_value k)
          else Undefined)"
| "member (JStr s) k =
     Inr (if is_array_index k \<and> nat (dec_value k) < length s then JStr [s ! nat (dec_value k)]
          else Undefined)"
| "member v k = Inr Undefined"

fun message :: "'n exn \<Rightarrow> string" where
  "message (AxiosError m r) = m"
| "message (TypeError m) = m"
| "message (ReferenceError m) = m"


section \<open>Bulk Operations\<close>

text \<open>
  \<^verbatim>\<open>Promise.all\<close>: fulfilled with the array of the values when every promise is
  fulfilled, and otherwise rejected with the reason of the promise that is rejected first
  (the earliest in the list among those that arrive together).
\<close>

fun first_rejected :: "'n promise list \<Rightarrow> (nat \<times> 'n exn) option" where
  "first_rejected [] = None"
| "first_rejected ((t, Inr v) # ps) = first_rejected ps"
| "first_rejected ((t, Inl e) # ps) =
     (case first_rejected ps of
        None \<Rightarrow> Some (t, e)
      | Some (t', e') \<Rightarrow> if t' < t then Some (t', e') else Some (t, e))"

fun fulfilled_values :: "'n promise list \<Rightarrow> 'n jsval list" where
  "fulfilled_values [] = []"
| "fulfilled_values ((t, Inr v) # ps) = v # fulfilled_values ps"
| "fulfilled_values ((t, Inl e) # ps) = fulfilled_values ps"

definition Promise_all :: "'n promise list \<Rightarrow> 'n promise" where
  "Promise_all ps =
     (case first_rejected ps of
        None \<Rightarrow> (foldr max (map fst ps) 0, Inr (JArr (fulfilled_values ps)))
      | Some (t, e) \<Rightarrow> (t, Inl e))"

text \<open>
  \<^verbatim>\<open>.filter((pos) => symbol === "" || pos.symbol === symbol)\<close> on the value of
  \<^verbatim>\<open>positions.data\<close> (of \<^verbatim>\<open>orders.data\<close> in the other operation: \<open>name\<close> is the
  variable, which the error message shows); anything but an array has no \<^verbatim>\<open>filter\<close> to
  call.
\<close>

fun filter_by_symbol :: "string \<Rightarrow> 'n jsval list \<Rightarrow> 'n exn + 'n jsval list" where
  "filter_by_symbol symbol [] = Inr []"
| "filter_by_symbol symbol (pos # rest) =
     (case (if symbol = [] then Inr True
            else (case member pos ''symbol'' of Inl e \<Rightarrow> Inl e | Inr s \<Rightarrow> Inr (s = JStr symbol))) of
        Inl e \<Rightarrow> Inl e
      | Inr keep \<Rightarrow>
          (case filter_by_symbol symbol rest of
             Inl e \<Rightarrow> Inl e
           | Inr kept \<Rightarrow> Inr (if keep then pos # kept else kept)))"

definition data_filter :: "string \<Rightarrow> string \<Rightarrow> 'n jsval \<Rightarrow> 'n exn + 'n jsval list" where
  "data_filter name symbol response =
     (case member response ''data'' of
        Inl e \<Rightarrow> Inl e
      | Inr (JArr xs) \<Rightarrow> filter_by_symbol symbol xs
      | Inr Undefined \<Rightarrow> Inl (TypeError (cannot_read ''undefined'' ''filter''))
      | Inr Null \<Rightarrow> Inl (TypeError (cannot_read ''null'' ''filter''))
      | Inr v \<Rightarrow> Inl (TypeError (name @ ''.data.filter is not a function'')))"

text \<open>
  \<^verbatim>\<open>.map((pos) => call(pos.symbol, pos[field]))\<close>: each call issues its request before
  the next element is looked at, and a read that throws leaves the earlier requests issued.
\<close>

fun map_calls ::
  "('n jsval \<Rightarrow> 'n jsval \<Rightarrow> 'n request list \<Rightarrow> 'n promise \<times> 'n request list) \<Rightarrow> string
     \<Rightarrow> 'n jsval list \<Rightarrow> 'n request list \<Rightarrow> ('n exn + 'n promise list) \<times> 'n request list" where
  "map_calls call field [] sent = (Inr [], sent)"
| "map_calls call field (pos # rest) sent =
     (case member pos ''symbol'' of
        Inl e \<Rightarrow> (Inl e, sent)
      | Inr symbol \<Rightarrow>
          (case member pos field of
             Inl e \<Rightarrow> (Inl e, sent)
           | Inr arg \<Rightarrow>
               (case call symbol arg sent of
                  (p, sent') \<Rightarrow>
                    (case map_calls call field rest sent' of
                       (Inl e, sent'') \<Rightarrow> (Inl e, sent'')
                     | (Inr ps, sent'') \<Rightarrow> (Inr (p # ps), sent'')))))"

text \<open>
  The body shared by the two bulk operations after the list has arrived at time \<open>t\<close>:
  filter, map, \<^verbatim>\<open>Promise.all\<close>. A \<^verbatim>\<open>TypeError\<close> thrown on the way rejects the
  promise of the operation.
\<close>

definition fan_out ::
  "string \<Rightarrow> ('n jsval \<Rightarrow> 'n jsval \<Rightarrow> 'n request list \<Rightarrow> 'n promise \<times> 'n request list) \<Rightarrow> string
     \<Rightarrow> string \<Rightarrow> nat \<Rightarrow> 'n jsval \<Rightarrow> 'n request list \<Rightarrow> 'n promise \<times> 'n request list" where
  "fan_out name call field symbol t response sent =
     (case data_filter name symbol response of
        Inl e \<Rightarrow> ((t, Inl e), sent)
      | Inr selected \<Rightarrow>
          (case map_calls call field selected sent of
             (Inl e, sent') \<Rightarrow> ((t, Inl e), sent')
           | (Inr ps, sent') \<Rightarrow> (Promise_all ps, sent')))"

text \<open>
  The argument is \<open>None\<close> when the caller passes nothing (or \<^verbatim>\<open>undefined\<close>); the
  parameter then takes its default, the empty string.
\<close>

definition closeAllPositions ::
  "'n runtime \<Rightarrow> string option \<Rightarrow> 'n request list \<Rightarrow> 'n promise \<times> 'n request list" where
  "closeAllPositions rt symbol_arg sent =
     (let symbol = (case symbol_arg of None \<Rightarrow> [] | Some s \<Rightarrow> s)
      in case getOpenPositions rt sent of
           ((t, Inl e), sent') \<Rightarrow> ((t, Inl e), sent')
         | ((t, Inr positions), sent') \<Rightarrow>
             fan_out ''positions'' (closePosition rt) ''positionSide'' symbol t positions sent')"

definition cancelAllOrders ::
  "'n runtime \<Rightarrow> string option \<Rightarrow> 'n request list \<Rightarrow> 'n promise \<times> 'n request list" where
  "cancelAllOrders rt symbol_arg sent =
     (let symbol = (case symbol_arg of None \<Rightarrow> [] | Some s \<Rightarrow> s)
      in case getPendingOrders rt sent of
           ((t, Inl e), sent') \<Rightarrow> ((t, Inl e), sent')
         | ((t, Inr orders), sent') \<Rightarrow>
             fan_out ''orders'' (cancelOrder rt) ''orderId'' symbol t orders sent')"

section \<open>Price-Movement Trigger\<close>

text \<open>Comparison of Numbers: false as soon as one side is \<open>NaN\<close>.\<close>

fun js_less :: "'n::linorder number \<Rightarrow> 'n number \<Rightarrow> bool" where
  "js_less (Fin a) (Fin b) = (a < b)"
| "js_less a b = False"

fun js_less_eq :: "'n::linorder number \<Rightarrow> 'n number \<Rightarrow> bool" where
  "js_less_eq (Fin a) (Fin b) = (a \<le> b)"
| "js_less_eq a b = False"

definition isNaN :: "'n number \<Rightarrow> bool" where
  "isNaN x = (x = NaN)"

text \<open>The value of a decimal literal of the source is what \<^verbatim>\<open>parseFloat\<close> reads from its text.\<close>

definition num_lit :: "'n runtime \<Rightarrow> string \<Rightarrow> 'n jsval" where
  "num_lit rt s = JNum (parseFloat rt s)"

text \<open>\<^verbatim>\<open>klineData.data[0][4]\<close>\<close>

definition previous_close :: "'n jsval \<Rightarrow> 'n exn + 'n jsval" where
  "previous_close klineData =
     (case member klineData ''data'' of
        Inl e \<Rightarrow> Inl e
      | Inr d \<Rightarrow> (case member d ''0'' of Inl e \<Rightarrow> Inl e | Inr candle \<Rightarrow> member candle ''4''))"

text \<open>
  \<^verbatim>\<open>simpleTradingStrategy(symbol)\<close> of the JavaScript entry point. Whatever is thrown
  inside \<^verbatim>\<open>try\<close> reaches the \<^verbatim>\<open>catch\<close> block, which calls \<^verbatim>\<open>next\<close>, a name that is
  bound nowhere in that function's scope. The promise of the order is returned without
  \<^verbatim>\<open>await\<close>, so its rejection is the caller's.
\<close>

definition simpleTradingStrategy ::
  "('n::linorder) runtime \<Rightarrow> string \<Rightarrow> 'n request list \<Rightarrow> 'n promise \<times> 'n request list" where
  "simpleTradingStrategy rt symbol sent =
     (case makeRequest rt ''GET'' ''/openApi/swap/v2/quote/price'' [(''symbol'', JStr symbol)] sent of
        ((t1, Inl e), sent1) \<Rightarrow> ((t1, Inl (ReferenceError ''next is not defined'')), sent1)
      | ((t1, Inr tickerData), sent1) \<Rightarrow>
          (case member tickerData ''price'' of
             Inl e \<Rightarrow> ((t1, Inl (ReferenceError ''next is not defined'')), sent1)
           | Inr price \<Rightarrow>
               (let currentPrice = js_parseFloat rt price
                in case makeRequest rt ''GET'' ''/openApi/swap/v2/quote/klines''
                          [(''symbol'', JStr symbol), (''interval'', JStr ''1m''),
                           (''limit'', num_lit rt ''2'')] sent1 of
                     ((t2, Inl e), sent2) \<Rightarrow>
                       ((t2, Inl (ReferenceError ''next is not defined'')), sent2)
                   | ((t2, Inr klineData), sent2) \<Rightarrow>
                       (case previous_close klineData of
                          Inl e \<Rightarrow> ((t2, Inl (ReferenceError ''next is not defined'')), sent2)
                        | Inr close \<Rightarrow>
                            (let previousPrice = js_parseFloat rt close
                             in if js_less previousPrice currentPrice
                                then placeMarketOrder rt (JStr symbol) (JStr ''BUY'')
                                       (num_lit rt ''0.01'') sent2
                                else if js_less currentPrice previousPrice
                                then placeMarketOrder rt (JStr symbol) (JStr ''SELL'')
                                       (num_lit rt ''0.01'') sent2
                                else ((t2, Inr Null), sent2))))))"

text \<open>The same function in \<^verbatim>\<open>index.ts\<close>, whose \<^verbatim>\<open>catch\<close> block throws the error again.\<close>

definition simpleTradingStrategy_ts ::
  "('n::linorder) runtime \<Rightarrow> string \<Rightarrow> 'n request list \<Rightarrow> 'n promise \<times> 'n request list" where
  "simpleTradingStrategy_ts rt symbol sent =
     (case makeRequest_ts rt ''GET'' ''/openApi/swap/v2/quote/price'' [(''symbol'', JStr symbol)] sent of
        ((t1, Inl e), sent1) \<Rightarrow> ((t1, Inl e), sent1)
      | ((t1, Inr tickerData), sent1) \<Rightarrow>
          (case member tickerData ''price'' of
             Inl e \<Rightarrow> ((t1, Inl e), sent1)
           | Inr price \<Rightarrow>
               (let currentPrice = js_parseFloat rt price
                in case makeRequest_ts rt ''GET'' ''/openApi/swap/v2/quote/klines''
                          [(''symbol'', JStr symbol), (''interval'', JStr ''1m''),
                           (''limit'', num_lit rt ''2'')] sent1 of
                     ((t2, Inl e), sent2) \<Rightarrow> ((t2, Inl e), sent2)
                   | ((t2, Inr klineData), sent2) \<Rightarrow>
                       (case previous_close klineData of
                          Inl e \<Rightarrow> ((t2, Inl e), sent2)
                        | Inr close \<Rightarrow>
                            (let previousPrice = js_parseFloat rt close
                             in if js_less previousPrice currentPrice
                                then placeMarketOrder_ts rt (JStr symbol) (JStr ''BUY'')
                                       (num_lit rt ''0.01'') sent2
                                else if js_less currentPrice previousPrice
                                then placeMarketOrder_ts rt (JStr symbol) (JStr ''SELL'')
                                       (num_lit rt ''0.01'') sent2
                                else ((t2, Inr Null), sent2))))))"

section \<open>Chat Command Front End\<close>

text \<open>
  \<^verbatim>\<open>ctx.message.text.split(" ").slice(1)\<close>, and the destructuring of the result: a
  position past the end of the array gives \<^verbatim>\<open>undefined\<close> (\<open>None\<close>).
\<close>

fun split_space :: "string \<Rightarrow> string list" where
  "split_space [] = [[]]"
| "split_space (c # cs) =
     (if c = CHR '' '' then [] # split_space cs
      else (case split_space cs of [] \<Rightarrow> [[c]] | w # ws \<Rightarrow> (c # w) # ws))"

definition args_of :: "string \<Rightarrow> string list" where
  "args_of text = drop 1 (split_space text)"

definition arg :: "string list \<Rightarrow> nat \<Rightarrow> string option" where
  "arg as i = (if i < length as then Some (as ! i) else None)"

text \<open>\<^verbatim>\<open>!x\<close> for a string or \<^verbatim>\<open>undefined\<close>.\<close>

fun falsy :: "string option \<Rightarrow> bool" where
  "falsy None = True"
| "falsy (Some s) = (s = [])"

fun arg_value :: "string option \<Rightarrow> 'n jsval" where
  "arg_value None = Undefined"
| "arg_value (Some s) = JStr s"

definition newline :: string where
  "newline = [CHR 0x0A]"

text \<open>
  The \<^verbatim>\<open>try\<close>/\<^verbatim>\<open>catch\<close> that ends every handler: the result is rendered under a
  label, an error as \<^verbatim>\<open>Error: \<close> and its message.
\<close>

definition render :: "'n runtime \<Rightarrow> string \<Rightarrow> 'n promise \<Rightarrow> string" where
  "render rt label p =
     (case snd p of
        Inr result \<Rightarrow> label @ newline @ JSON_stringify rt result
      | Inl e \<Rightarrow> ''Error: '' @ message e)"

definition replying ::
  "'n runtime \<Rightarrow> string \<Rightarrow> 'n promise \<times> 'n request list \<Rightarrow> string list \<times> 'n request list" where
  "replying rt label r = ([render rt label (fst r)], snd r)"

definition cmd_market ::
  "('n::{linorder,zero}) runtime \<Rightarrow> string \<Rightarrow> 'n request list \<Rightarrow> string list \<times> 'n request list" where
  "cmd_market rt text sent =
     (let as = args_of text; symbol = arg as 0; side = arg as 1; quantity = arg as 2
      in if falsy symbol \<or> falsy side \<or> falsy quantity
         then ([''Usage: /market <symbol> <BUY|SELL> <quantity>''], sent)
         else if toUpperCase rt (the side) \<notin> set [''BUY'', ''SELL'']
         then ([''Side must be either BUY or SELL''], sent)
         else (let parsedQuantity = parseFloat rt (the quantity)
               in if isNaN parsedQuantity \<or> js_less_eq parsedQuantity (Fin 0)
                  then ([''Quantity must be a positive number''], sent)
                  else replying rt ''Market order placed:''
                         (placeMarketOrder rt (arg_value symbol) (JStr (toUpperCase rt (the side)))
                            (JNum parsedQuantity) sent)))"

definition cmd_limit ::
  "('n::{linorder,zero}) runtime \<Rightarrow> string \<Rightarrow> 'n request list \<Rightarrow> string list \<times> 'n request list" where
  "cmd_limit rt text sent =
     (let as = args_of text; symbol = arg as 0; side = arg as 1; quantity = arg as 2;
          price = arg as 3
      in if falsy symbol \<or> falsy side \<or> falsy quantity \<or> falsy price
         then ([''Usage: /limit <symbol> <BUY|SELL> <quantity> <price>''], sent)
         else if toUpperCase rt (the side) \<notin> set [''BUY'', ''SELL'']
         then ([''Side must be either BUY or SELL''], sent)
         else (let parsedQuantity = parseFloat rt (the quantity)
               in if isNaN parsedQuantity \<or> js_less_eq parsedQuantity (Fin 0)
                  then ([''Quantity must be a positive number''], sent)
                  else replying rt ''Limit order placed:''
                         (placeLimitOrder rt (arg_value symbol) (JStr (toUpperCase rt (the side)))
                            (JNum parsedQuantity) (arg_value price) sent)))"

definition cmd_balance :: "'n runtime \<Rightarrow> string \<Rightarrow> 'n request list \<Rightarrow> string list \<times> 'n request list" where
  "cmd_balance rt text sent = replying rt ''Account Balance:'' (getAccountBalance rt sent)"

definition cmd_positions :: "'n runtime \<Rightarrow> string \<Rightarrow> 'n request list \<Rightarrow> string list \<times> 'n request list" where
  "cmd_positions rt text sent = replying rt ''Open Positions:'' (getOpenPositions rt sent)"

definition cmd_orders :: "'n runtime \<Rightarrow> string \<Rightarrow> 'n request list \<Rightarrow> string list \<times> 'n request list" where
  "cmd_orders rt text sent = replying rt ''Pending Orders:'' (getPendingOrders rt sent)"

definition cmd_close :: "'n runtime \<Rightarrow> string \<Rightarrow> 'n request list \<Rightarrow> string list \<times> 'n request list" where
  "cmd_close rt text sent =
     (let as = args_of text; symbol = arg as 0; positionSide = arg as 1
      in if falsy symbol \<or> falsy positionSide
         then ([''Usage: /close <symbol> <LONG|SHORT>''], sent)
         else replying rt ''Position closed:''
                (closePosition rt (arg_value symbol) (arg_value positionSide) sent))"

definition cmd_cancel :: "'n runtime \<Rightarrow> string \<Rightarrow> 'n request list \<Rightarrow> string list \<times> 'n request list" where
  "cmd_cancel rt text sent =
     (let as = args_of text; symbol = arg as 0; orderId = arg as 1
      in if falsy symbol \<or> falsy orderId
         then ([''Usage: /cancel <symbol> <orderId>''], sent)
         else replying rt ''Order canceled:''
                (cancelOrder rt (arg_value symbol) (arg_value orderId) sent))"

definition cmd_closeall :: "'n runtime \<Rightarrow> string \<Rightarrow> 'n request list \<Rightarrow> string list \<times> 'n request list" where
  "cmd_closeall rt text sent =
     replying rt ''All positions closed:'' (closeAllPositions rt (arg (args_of text) 0) sent)"

definition cmd_cancelall :: "'n runtime \<Rightarrow> string \<Rightarrow> 'n request list \<Rightarrow> string list \<times> 'n request list" where
  "cmd_cancelall rt text sent =
     replying rt ''All orders canceled:'' (cancelAllOrders rt (arg (args_of text) 0) sent)"

definition cmd_trailingstop ::
  "'n runtime \<Rightarrow> string \<Rightarrow> 'n request list \<Rightarrow> string list \<times> 'n request list" where
  "cmd_trailingstop rt text sent =
     (let as = args_of text; symbol = arg as 0; activationPrice = arg as 1;
          callbackRate = arg as 2
      in if falsy symbol \<or> falsy activationPrice \<or> falsy callbackRate
         then ([''Usage: /trailingstop <symbol> <activationPrice> <callbackRate>''], sent)
         else replying rt ''Trailing stop set:''
                (setTrailingStop rt (arg_value symbol) (arg_value activationPrice)
                   (arg_value callbackRate) sent))"

definition cmd_sl :: "'n runtime \<Rightarrow> string \<Rightarrow> 'n request list \<Rightarrow> string list \<times> 'n request list" where
  "cmd_sl rt text sent =
     (let as = args_of text; symbol = arg as 0; stopPrice = arg as 1
      in if falsy symbol \<or> falsy stopPrice
         then ([''Usage: /sl <symbol> <stopPrice>''], sent)
         else replying rt ''Stop loss set:''
                (setStopLoss rt (arg_value symbol) (arg_value stopPrice) sent))"

definition cmd_tp :: "'n runtime \<Rightarrow> string \<Rightarrow> 'n request list \<Rightarrow> string list \<times> 'n request list" where
  "cmd_tp rt text sent =
     (let as = args_of text; symbol = arg as 0; stopPrice = arg as 1
      in if falsy symbol \<or> falsy stopPrice
         then ([''Usage: /tp <symbol> <stopPrice>''], sent)
         else replying rt ''Take profit set:''
                (setTakeProfit rt (arg_value symbol) (arg_value stopPrice) sent))"

definition help_commands :: "(string \<times> string) list" where
  "help_commands =
     [(''/balance'', ''Get account balance''),
      (''/positions'', ''Get open positions''),
      (''/orders'', ''Get pending orders''),
      (''/close <symbol> <LONG|SHORT>'', ''Close a specific position''),
      (''/cancel <symbol> <orderId>'', ''Cancel a specific order''),
      (''/closeall [symbol]'', ''Close all positions (optionally for a specific symbol)''),
      (''/cancelall [symbol]'', ''Cancel all orders (optionally for a specific symbol)''),
      (''/trailingstop <symbol> <activationPrice> <callbackRate>'', ''Set a trailing stop''),
      (''/sl <symbol> <stopPrice>'', ''Set a stop loss''),
      (''/tp <symbol> <stopPrice>'', ''Set a take profit''),
      (''/market <symbol> <BUY|SELL> <quantity>'', ''Place a market order''),
      (''/limit <symbol> <BUY|SELL> <quantity> <price>'', ''Place a limit order''),
      (''/help'', ''Show this help message'')]"

definition cmd_help :: "'n runtime \<Rightarrow> string \<Rightarrow> 'n request list \<Rightarrow> string list \<times> 'n request list" where
  "cmd_help rt text sent =
     ([''Available Commands:'' @ newline @ newline
       @ concat (map (\<lambda>(cmd, description). cmd @ '' - '' @ description @ newline)
                   help_commands)
       @ newline @ ''For more detailed information on each command, use it without parameters.''],
      sent)"

text \<open>The handlers registered with \<^verbatim>\<open>bot.command\<close>, by command name.\<close>

definition bot_command ::
  "('n::{linorder,zero}) runtime \<Rightarrow> string \<Rightarrow> string \<Rightarrow> 'n request list
     \<Rightarrow> string list \<times> 'n request list" where
  "bot_command rt name text sent =
     (if name = ''yosiet'' \<or> name = ''help'' then cmd_help rt text sent
      else if name = ''market'' then cmd_market rt text sent
      else if name = ''limit'' then cmd_limit rt text sent
      else if name = ''balance'' then cmd_balance rt text sent
      else if name = ''positions'' then cmd_positions rt text sent
      else if name = ''orders'' then cmd_orders rt text sent
      else if name = ''close'' then cmd_close rt text sent
      else if name = ''cancel'' then cmd_cancel rt text sent
      else if name = ''closeall'' then cmd_closeall rt text sent
      else if name = ''cancelall'' then cmd_cancelall rt text sent
      else if name = ''trailingstop'' then cmd_trailingstop rt text sent
      else if name = ''sl'' then cmd_sl rt text sent
      else if name = ''tp'' then cmd_tp rt text sent
      else ([], sent))"

subsection \<open>The checks of the handlers\<close>

text \<open>
  The tests that the handlers make before they call an operation, collected from their
  bodies: each handler tests the presence of its leading arguments (\<^verbatim>\<open>!symbol || ...\<close>),
  and the two order handlers go on to test the side
  (\<^verbatim>\<open>!["BUY", "SELL"].includes(side.toUpperCase())\<close>) and what \<^verbatim>\<open>parseFloat\<close> reads
  from the quantity (\<^verbatim>\<open>isNaN(parsedQuantity) || parsedQuantity <= 0\<close>). The replies are
  the texts that these tests answer with.
\<close>

definition required_args :: "string \<Rightarrow> nat" where
  "required_args name =
     (if name = ''limit'' then 4
      else if name = ''market'' \<or> name = ''trailingstop'' then 3
      else if name = ''close'' \<or> name = ''cancel'' \<or> name = ''sl'' \<or> name = ''tp'' then 2
      else 0)"

definition side_refused :: "'n runtime \<Rightarrow> string option \<Rightarrow> bool" where
  "side_refused rt side =
     (case side of None \<Rightarrow> True | Some s \<Rightarrow> toUpperCase rt s \<noteq> ''BUY'' \<and> toUpperCase rt s \<noteq> ''SELL'')"

definition quantity_refused :: "('n::{linorder,zero}) runtime \<Rightarrow> string option \<Rightarrow> bool" where
  "quantity_refused rt quantity =
     (case quantity of
        None \<Rightarrow> True
      | Some s \<Rightarrow> (case parseFloat rt s of NaN \<Rightarrow> True | Fin q \<Rightarrow> q \<le> 0))"

definition handler_refuses :: "('n::{linorder,zero}) runtime \<Rightarrow> string \<Rightarrow> string \<Rightarrow> bool" where
  "handler_refuses rt name text =
     (let as = args_of text
      in list_ex (\<lambda>i. falsy (arg as i)) [0..<required_args name]
         \<or> ((name = ''market'' \<or> name = ''limit'')
             \<and> (side_refused rt (arg as 1) \<or> quantity_refused rt (arg as 2))))"

definition validation_replies :: "string list" where
  "validation_replies =
     [''Usage: /market <symbol> <BUY|SELL> <quantity>'',
      ''Usage: /limit <symbol> <BUY|SELL> <quantity> <price>'',
      ''Usage: /close <symbol> <LONG|SHORT>'',
      ''Usage: /cancel <symbol> <orderId>'',
      ''Usage: /trailingstop <symbol> <activationPrice> <callbackRate>'',
      ''Usage: /sl <symbol> <stopPrice>'',
      ''Usage: /tp <symbol> <stopPrice>'',
      ''Side must be either BUY or SELL'',
      ''Quantity must be a positive number'']"

section \<open>The specification's wording\<close>

text \<open>
  The canonical string as the specification words it: the keys sorted ascending by
  ordinal string comparison, the pairs whose value is the empty string left out, each
  remaining pair rendered as \<^verbatim>\<open>key=value\<close> with the value percent-encoded, the pairs
  joined with \<^verbatim>\<open>&\<close>.
\<close>

definition canonical_string :: "('n \<Rightarrow> string) \<Rightarrow> 'n jsobj \<Rightarrow> string" where
  "canonical_string ns params =
     join ''&''
       (map (\<lambda>k. k @ ''='' @ encodeURIComponent (toString ns (get_prop params k)))
          (filter (\<lambda>k. get_prop params k \<noteq> JStr []) (sort (map fst params))))"

text \<open>
  A numeric quantity as the specification words it: the whole argument is a decimal
  numeral, digits with at most one point among them and after an optional sign.
\<close>

definition numeric :: "string \<Rightarrow> bool" where
  "numeric s =
     (let u = (case s of [] \<Rightarrow> [] | c # cs \<Rightarrow> if c = CHR ''-'' \<or> c = CHR ''+'' then cs else s);
          whole = takeWhile is_digit u;
          rest = dropWhile is_digit u
      in if rest = [] then whole \<noteq> []
         else hd rest = CHR ''.'' \<and> list_all is_digit (tl rest) \<and> \<not> (whole = [] \<and> tl rest = []))"

section \<open>Observing the requests\<close>

text \<open>The parameter names that the operations and the two dispatchers write.\<close>

definition parameter_names :: "string list" where
  "parameter_names =
     [''symbol'', ''positionSide'', ''orderId'', ''type'', ''activationPrice'', ''callbackRate'',
      ''stopPrice'', ''side'', ''orderType'', ''quantity'', ''price'', ''interval'', ''limit'',
      ''timestamp'', ''apiKey'', ''signature'']"

text \<open>The parameter set that a request carries, in its query string or in its body.\<close>

definition transmitted :: "'n request \<Rightarrow> 'n jsobj" where
  "transmitted r =
     (case query r of Some ps \<Rightarrow> ps | None \<Rightarrow> (case body r of Some ps \<Rightarrow> ps | None \<Rightarrow> []))"





text \<open>What a close or cancel call shows on the wire: method, address, symbol and second field.\<close>

definition call_of :: "string \<Rightarrow> 'n request \<Rightarrow> string \<times> string \<times> 'n jsval \<times> 'n jsval" where
  "call_of fieldname r =
     (http_method r, url r, get_prop (transmitted r) ''symbol'', get_prop (transmitted r) fieldname)"

text \<open>What an order shows on the wire: method, address, symbol, side, order type, quantity.\<close>

definition market_order_of ::
  "'n request \<Rightarrow> string \<times> string \<times> 'n jsval \<times> 'n jsval \<times> 'n jsval \<times> 'n jsval" where
  "market_order_of r =
     (http_method r, url r, get_prop (transmitted r) ''symbol'', get_prop (transmitted r) ''side'',
      get_prop (transmitted r) ''orderType'', get_prop (transmitted r) ''quantity'')"




section \<open>A small runtime for concrete runs\<close>

text \<open>
  The theorems below hold for every runtime. To run the definitions on concrete inputs the
  examples use this one: Numbers are integers counted in hundredths, only the renderings
  and the readings that the examples meet are tabulated (\<^verbatim>\<open>parseFloat\<close> reads the
  longest prefix that is a numeral, so \<^verbatim>\<open>1abc\<close> reads as 1, and gives \<^verbatim>\<open>NaN\<close> when there
  is none), the keyed hash shows its two arguments, and the exchange is given by the
  example.
\<close>

definition demo_numToString :: "int \<Rightarrow> string" where
  "demo_numToString n =
     (if n = 1 then ''0.01'' else if n = 200 then ''2'' else if n = 50 then ''0.5''
      else if n = 100 then ''1''
      else if n = 170000000000000 then ''1700000000000''
      else if n = 170000000000100 then ''1700000000001''
      else if n = 170000000000200 then ''1700000000002''
      else if n = 170000000000300 then ''1700000000003''
      else ''0'')"

definition demo_parseFloat :: "string \<Rightarrow> int number" where
  "demo_parseFloat s =
     (if s = ''0.01'' then Fin 1 else if s = ''2'' then Fin 200 else if s = ''0.5'' then Fin 50
      else if s = ''-1'' then Fin (- 100) else if s = ''0'' then Fin 0
      else if s = ''99'' then Fin 9900 else if s = ''100'' then Fin 10000
      else if s = ''101'' then Fin 10100
      else if s = ''1'' then Fin 100 else if s = ''1abc'' then Fin 100
      else NaN)"

definition demo_toUpperCase :: "string \<Rightarrow> string" where
  "demo_toUpperCase s =
     map (\<lambda>c. if CHR ''a'' \<le> c \<and> c \<le> CHR ''z'' then char_of (of_char c - (32::nat)) else c) s"

definition demo_rt :: "(int request list \<Rightarrow> int request \<Rightarrow> int promise) \<Rightarrow> int runtime" where
  "demo_rt exchange =
     \<lparr> HmacSHA256 = (\<lambda>message key. ''hmac['' @ key @ '']('' @ message @ '')''),
       numToString = demo_numToString,
       parseFloat = demo_parseFloat,
       toUpperCase = demo_toUpperCase,
       JSON_stringify = toString demo_numToString,
       API_KEY = ''AK'',
       SECRET_KEY = ''SK'',
       Date_now = (\<lambda>sent. 170000000000000 + 100 * int (length sent)),
       axios = exchange \<rparr>"

text \<open>
  An exchange with three open positions and two pending orders; closing the ETH position
  fails, and the price and the previous close are what the example passes.
\<close>

definition demo_position :: "string \<Rightarrow> string \<Rightarrow> int jsval" where
  "demo_position symbol side = JObj [(''symbol'', JStr symbol), (''positionSide'', JStr side)]"

definition demo_exchange :: "string \<Rightarrow> string \<Rightarrow> int request list \<Rightarrow> int request \<Rightarrow> int promise" where
  "demo_exchange price previous sent r =
     (if url r = BASE_URL @ ''/openApi/contract/v1/allPosition''
      then (1, Inr (JObj [(''data'', JArr [demo_position ''BTC-USDT'' ''LONG'',
                                           demo_position ''ETH-USDT'' ''SHORT'',
                                           demo_position ''BTC-USDT'' ''SHORT''])]))
      else if url r = BASE_URL @ ''/openApi/contract/v1/allOrders''
      then (1, Inr (JObj [(''data'', JArr [JObj [(''symbol'', JStr ''BTC-USDT''), (''orderId'', JStr ''7'')],
                                           JObj [(''symbol'', JStr ''ETH-USDT''), (''orderId'', JStr ''8'')]])]))
      else if url r = BASE_URL @ ''/openApi/swap/v2/trade/closePosition''
      then (case body r of
              Some ps \<Rightarrow>
                (if get_prop ps ''symbol'' = JStr ''ETH-USDT''
                 then (2, Inl (AxiosError ''Request failed with status code 400'' (Some Null)))
                 else (3, Inr (JObj [(''code'', JStr ''0'')])))
            | None \<Rightarrow> (2, Inl (AxiosError ''Network Error'' None)))
      else if url r = BASE_URL @ ''/openApi/swap/v2/quote/price''
      then (1, Inr (JObj [(''price'', JStr price)]))
      else if url r = BASE_URL @ ''/openApi/swap/v2/quote/klines''
      then (1, Inr (JObj [(''data'', JArr [JArr [JStr ''1'', JStr ''2'', JStr ''3'', JStr ''4'',
                                                 JStr previous],
                                           JArr []])]))
      else (1, Inr (JObj [(''code'', JStr ''0'')])))"



section \<open>Properties of the Signer\<close>

lemma set_prop_fresh: "k \<notin> fst ` set obj \<Longrightarrow> set_prop obj k v = obj @ [(k, v)]"
  by (induction obj) auto

lemma foldl_set_prop_distinct:
  "distinct ks \<Longrightarrow> set ks \<inter> fst ` set acc = {} \<Longrightarrow>
   foldl (\<lambda>obj key. set_prop obj key (g key)) acc ks = acc @ map (\<lambda>k. (k, g k)) ks"
proof (induction ks arbitrary: acc)
  case Nil
  then show ?case by simp
next
  case (Cons k ks)
  have fresh: "k \<notin> fst ` set acc" using Cons.prems(2) by auto
  have "set ks \<inter> fst ` set (acc @ [(k, g k)]) = {}"
    using Cons.prems by auto
  with Cons.IH [of "acc @ [(k, g k)]"] Cons.prems(1) fresh show ?case
    by (simp add: set_prop_fresh)
qed

lemma foldl_skip:
  "foldl (\<lambda>obj key. if P key then h obj key else obj) acc ks = foldl h acc (filter P ks)"
  by (induction ks arbitrary: acc) auto

lemma mset_own_keys: "mset (own_keys obj) = mset (map fst obj)"
  by (simp add: own_keys_def Let_def)

lemma sort_own_keys: "sort (own_keys obj) = sort (map fst obj)"
  by (rule properties_for_sort) (simp_all add: mset_own_keys)

text \<open>
  The object that the signer rebuilds: the properties with a value other than the empty
  string and a name other than \<^verbatim>\<open>__proto__\<close>, created in the order of the sorted names.
\<close>

lemma orderedParams_eq:
  assumes "distinct (map fst params)"
  shows "orderedParams params =
         map (\<lambda>k. (k, get_prop params k))
           (filter (\<lambda>k. get_prop params k \<noteq> JStr [] \<and> k \<noteq> ''__proto__'')
              (sort (map fst params)))"
proof -
  have step: "(\<lambda>obj key. if get_prop params key \<noteq> JStr []
                           then assign obj key (get_prop params key) else obj)
            = (\<lambda>obj key. if get_prop params key \<noteq> JStr [] \<and> key \<noteq> ''__proto__''
                           then set_prop obj key (get_prop params key) else obj)"
    by (simp add: fun_eq_iff assign_def)
  have "orderedParams params =
        foldl (\<lambda>obj key. set_prop obj key (get_prop params key)) []
          (filter (\<lambda>k. get_prop params k \<noteq> JStr [] \<and> k \<noteq> ''__proto__'')
             (sort (map fst params)))"
    unfolding orderedParams_def sort_own_keys step by (rule foldl_skip)
  also have "\<dots> = [] @ map (\<lambda>k. (k, get_prop params k))
           (filter (\<lambda>k. get_prop params k \<noteq> JStr [] \<and> k \<noteq> ''__proto__'')
              (sort (map fst params)))"
    by (rule foldl_set_prop_distinct) (simp_all add: assms)
  finally show ?thesis by simp
qed

lemma own_keys_plain:
  "list_all (\<lambda>k. \<not> is_array_index k) (map fst obj) \<Longrightarrow> own_keys obj = map fst obj"
  by (simp add: own_keys_def Let_def list_all_iff filter_id_conv filter_empty_conv)

lemma get_prop_map:
  "distinct ks \<Longrightarrow> k \<in> set ks \<Longrightarrow> get_prop (map (\<lambda>k. (k, g k)) ks) k = g k"
  by (induction ks) (auto simp: get_prop_def)

lemma entries_plain:
  assumes "distinct ks" "list_all (\<lambda>k. \<not> is_array_index k) ks"
  shows "entries (map (\<lambda>k. (k, g k)) ks) = map (\<lambda>k. (k, g k)) ks"
proof -
  have "own_keys (map (\<lambda>k. (k, g k)) ks) = ks"
    using assms(2) own_keys_plain [of "map (\<lambda>k. (k, g k)) ks"] by (simp add: comp_def)
  then show ?thesis
    using assms(1) by (simp add: entries_def get_prop_map)
qed

text \<open>
  C1: the string fed to the keyed hash is to be the canonical string: keys ascending by
  ordinal string comparison, pairs with an empty value left out, values percent-encoded.
  The code departs from it in three places. The signer of \<^verbatim>\<open>index.ts\<close> does not encode:
  closing a position of the symbol \<^verbatim>\<open>BTC/USDT\<close> signs \<^verbatim>\<open>symbol=BTC/USDT\<close>, where the
  canonical string has \<^verbatim>\<open>symbol=BTC%2FUSDT\<close>. The signer of the JavaScript entry point
  sorts the keys and then reads them back from an object, which enumerates array indices
  first and by numeric value: \<^verbatim>\<open>{"10": "a", "9": "b"}\<close> is signed as \<^verbatim>\<open>9=b&10=a\<close>,
  where the canonical string is \<^verbatim>\<open>10=a&9=b\<close>. And the assignment to the rebuilt object
  loses a pair of the name \<^verbatim>\<open>__proto__\<close>.
\<close>

theorem generateSignature_departs_from_canonical:
  "get_prop (transmitted (last (snd (closePosition_ts (demo_rt (demo_exchange ''1'' ''1''))
       (JStr ''BTC/USDT'') (JStr ''LONG'') [])))) ''signature''
     = JStr ''hmac[SK](apiKey=AK&positionSide=LONG&symbol=BTC/USDT&timestamp=1700000000000)''
   \<and> canonical_string demo_numToString
        [(''symbol'', JStr ''BTC/USDT''), (''positionSide'', JStr ''LONG''),
         (''timestamp'', JNum (Fin 170000000000000)), (''apiKey'', JStr ''AK'')]
     = ''apiKey=AK&positionSide=LONG&symbol=BTC%2FUSDT&timestamp=1700000000000''
   \<and> queryString demo_numToString [(''10'', JStr ''a''), (''9'', JStr ''b'')] = ''9=b&10=a''
   \<and> canonical_string demo_numToString [(''10'', JStr ''a''), (''9'', JStr ''b'')] = ''10=a&9=b''
   \<and> queryString demo_numToString [(''__proto__'', JStr ''x''), (''a'', JStr ''1'')] = ''a=1''
   \<and> canonical_string demo_numToString [(''__proto__'', JStr ''x''), (''a'', JStr ''1'')]
     = ''__proto__=x&a=1''"
  by code_simp

text \<open>
  None of the parameter names that the program writes is an array index or
  \<^verbatim>\<open>__proto__\<close>.
\<close>

lemma parameter_names_plain:
  "list_all (\<lambda>k. \<not> is_array_index k \<and> k \<noteq> ''__proto__'') parameter_names"
  by code_simp

text \<open>
  Where no key is an array index or \<^verbatim>\<open>__proto__\<close>, the signer of the JavaScript entry
  point does feed the canonical string to the keyed hash.
\<close>

lemma generateSignature_canonical:
  assumes "distinct (map fst params)"
    and "list_all (\<lambda>k. \<not> is_array_index k \<and> k \<noteq> ''__proto__'') (map fst params)"
  shows "generateSignature rt params secretKey =
         HmacSHA256 rt (canonical_string (numToString rt) params) secretKey"
proof -
  let ?ks = "filter (\<lambda>k. get_prop params k \<noteq> JStr []) (sort (map fst params))"
  have same: "filter (\<lambda>k. get_prop params k \<noteq> JStr [] \<and> k \<noteq> ''__proto__'')
                (sort (map fst params)) = ?ks"
    using assms(2) by (intro filter_cong) (auto simp: list_all_iff)
  have d: "distinct ?ks" using assms(1) by simp
  have p: "list_all (\<lambda>k. \<not> is_array_index k) ?ks"
    using assms(2) by (auto simp: list_all_iff)
  have "entries (orderedParams params) = map (\<lambda>k. (k, get_prop params k)) ?ks"
    unfolding orderedParams_eq [OF assms(1)] same by (rule entries_plain [OF d p])
  then show ?thesis
    by (simp add: generateSignature_def queryString_def canonical_string_def comp_def)
qed

lemma generateSignature_canonical_example:
  "generateSignature (demo_rt (demo_exchange ''1'' ''1''))
     [(''symbol'', JStr ''BTC-USDT''), (''side'', JStr []),
      (''timestamp'', JNum (Fin 170000000000000))] ''SK''
   = ''hmac[SK](symbol=BTC-USDT&timestamp=1700000000000)''"
proof -
  let ?p = "[(''symbol'', JStr ''BTC-USDT''), (''side'', JStr []),
             (''timestamp'', JNum (Fin (170000000000000::int)))]"
  have d: "distinct (map fst ?p)" by simp
  have a: "list_all (\<lambda>k. \<not> is_array_index k \<and> k \<noteq> ''__proto__'') (map fst ?p)" by code_simp
  have c: "HmacSHA256 (demo_rt (demo_exchange ''1'' ''1''))
             (canonical_string (numToString (demo_rt (demo_exchange ''1'' ''1''))) ?p) ''SK''
           = ''hmac[SK](symbol=BTC-USDT&timestamp=1700000000000)''"
    by code_simp
  show ?thesis
    using generateSignature_canonical [OF d a, of "demo_rt (demo_exchange ''1'' ''1'')" "''SK''"] c
    by simp
qed

text \<open>
  C2: the signature does not depend on the order in which the keys were inserted: a
  mapping and any permutation of its properties have the same signature under the same
  secret key.
\<close>

theorem generateSignature_order_independent:
  assumes "mset params' = mset params" and "distinct (map fst params)"
  shows "generateSignature rt params' secretKey = generateSignature rt params secretKey"
proof -
  have m: "mset (map fst params') = mset (map fst params)"
    using assms(1) by (metis mset_map)
  have d': "distinct (map fst params')"
    using m assms(2) by (metis mset_eq_imp_distinct_iff)
  have "set params' = set params" using assms(1) by (metis set_mset_mset)
  then have "map_of params' = map_of params"
    using d' assms(2) by (simp add: map_of_inject_set)
  then have g: "get_prop params' = get_prop params"
    by (simp add: get_prop_def fun_eq_iff)
  have s: "sort (map fst params') = sort (map fst params)"
    by (rule properties_for_sort) (simp_all add: assms(1))
  show ?thesis
    by (simp add: generateSignature_def queryString_def orderedParams_eq [OF assms(2)]
        orderedParams_eq [OF d'] g s)
qed

theorem generateSignature_order_independent_witness:
  "mset [(''timestamp'', JNum (Fin (170000000000000::int))), (''symbol'', JStr ''BTC-USDT'')]
     = mset [(''symbol'', JStr ''BTC-USDT''), (''timestamp'', JNum (Fin 170000000000000))]
   \<and> distinct (map fst [(''symbol'', JStr ''BTC-USDT''),
                         (''timestamp'', JNum (Fin (170000000000000::int)))])
   \<and> generateSignature (demo_rt (demo_exchange ''1'' ''1''))
        [(''timestamp'', JNum (Fin 170000000000000)), (''symbol'', JStr ''BTC-USDT'')] ''SK''
      = generateSignature (demo_rt (demo_exchange ''1'' ''1''))
          [(''symbol'', JStr ''BTC-USDT''), (''timestamp'', JNum (Fin 170000000000000))] ''SK''"
proof -
  let ?p = "[(''symbol'', JStr ''BTC-USDT''), (''timestamp'', JNum (Fin (170000000000000::int)))]"
  let ?p' = "[(''timestamp'', JNum (Fin (170000000000000::int))), (''symbol'', JStr ''BTC-USDT'')]"
  have m: "mset ?p' = mset ?p" by simp
  have d: "distinct (map fst ?p)" by simp
  show ?thesis
    using m d generateSignature_order_independent [OF m d] by blast
qed

text \<open>
  C3: a pair whose value is the empty string is to be left out before signing, so that
  \<^verbatim>\<open>{a: "1", b: ""}\<close> and \<^verbatim>\<open>{a: "1"}\<close> are signed alike. The signer of \<^verbatim>\<open>index.ts\<close>
  keeps the pair: it signs \<^verbatim>\<open>a=1&b=\<close> for the first mapping and \<^verbatim>\<open>a=1\<close> for the
  second.
\<close>

theorem generateSignature_ts_keeps_empty:
  "generateSignature_ts (demo_rt (demo_exchange ''1'' ''1''))
     [(''a'', JStr ''1''), (''b'', JStr [])] ''SK'' = ''hmac[SK](a=1&b=)''
   \<and> generateSignature_ts (demo_rt (demo_exchange ''1'' ''1''))
     [(''a'', JStr ''1'')] ''SK'' = ''hmac[SK](a=1)''"
  by code_simp

text \<open>
  The signer of the JavaScript entry point does leave the pair out: the signature of a
  mapping in which key \<open>k\<close> has the empty string as its value is the signature of the
  mapping without \<open>k\<close>.
\<close>

lemma generateSignature_drops_empty:
  assumes "distinct (map fst params)" and "get_prop params k = JStr []"
  shows "generateSignature rt params secretKey =
         generateSignature rt (filter (\<lambda>p. fst p \<noteq> k) params) secretKey"
proof -
  let ?rest = "filter (\<lambda>p. fst p \<noteq> k) params"
  have d': "distinct (map fst ?rest)"
    using assms(1) by (simp add: distinct_map_filter)
  have g: "k' \<noteq> k \<Longrightarrow> get_prop ?rest k' = get_prop params k'" for k'
    by (induction params) (auto simp: get_prop_def)
  have keys: "map fst ?rest = filter (\<lambda>k'. k' \<noteq> k) (map fst params)"
    by (induction params) auto
  let ?ks = "filter (\<lambda>k'. get_prop params k' \<noteq> JStr [] \<and> k' \<noteq> ''__proto__'')
               (sort (map fst params))"
  have pick: "(k' \<noteq> k \<and> get_prop ?rest k' \<noteq> JStr [] \<and> k' \<noteq> ''__proto__'')
              = (get_prop params k' \<noteq> JStr [] \<and> k' \<noteq> ''__proto__'')" for k'
    using g [of k'] assms(2) by (cases "k' = k") auto
  have same_keys: "filter (\<lambda>k'. get_prop ?rest k' \<noteq> JStr [] \<and> k' \<noteq> ''__proto__'')
                     (sort (map fst ?rest)) = ?ks"
    unfolding keys filter_sort [symmetric] filter_filter by (simp add: pick)
  have absent: "k \<notin> set ?ks" using assms(2) by simp
  have same_values:
    "map (\<lambda>k'. (k', get_prop ?rest k')) ks = map (\<lambda>k'. (k', get_prop params k')) ks"
    if "k \<notin> set ks" for ks
    using that by (induction ks) (auto simp: g)
  have "orderedParams ?rest = map (\<lambda>k'. (k', get_prop ?rest k')) ?ks"
    unfolding orderedParams_eq [OF d'] same_keys ..
  also have "\<dots> = map (\<lambda>k'. (k', get_prop params k')) ?ks"
    by (rule same_values [OF absent])
  also have "\<dots> = orderedParams params"
    unfolding orderedParams_eq [OF assms(1)] ..
  finally have "orderedParams ?rest = orderedParams params" .
  then show ?thesis
    by (simp add: generateSignature_def queryString_def)
qed

lemma generateSignature_drops_empty_example:
  "generateSignature (demo_rt (demo_exchange ''1'' ''1''))
     [(''a'', JStr ''1''), (''b'', JStr [])] ''SK''
   = generateSignature (demo_rt (demo_exchange ''1'' ''1'')) [(''a'', JStr ''1'')] ''SK''"
proof -
  let ?p = "[(''a'', JStr ''1''), (''b'', JStr [] :: int jsval)]"
  have d: "distinct (map fst ?p)" by simp
  have g: "get_prop ?p ''b'' = JStr []" by (simp add: get_prop_def)
  show ?thesis
    using generateSignature_drops_empty [OF d g, of "demo_rt (demo_exchange ''1'' ''1'')" "''SK''"]
    by simp
qed

section \<open>Properties of the Request Dispatcher\<close>

lemma map_of_set_prop: "map_of (set_prop obj k v) = (map_of obj)(k \<mapsto> v)"
  by (induction obj) (auto simp: fun_eq_iff)

lemma set_own_keys: "set (own_keys obj) = fst ` set obj"
  using mset_own_keys [of obj] by (metis set_mset_mset set_map)

lemma map_of_entries: "map_of (entries obj) = map_of obj"
proof
  fix k
  show "map_of (entries obj) k = map_of obj k"
  proof (cases "k \<in> fst ` set obj")
    case True
    then obtain v where "map_of obj k = Some v"
      by (metis domD dom_map_of_conv_image_fst)
    then show ?thesis
      using True by (simp add: entries_def map_of_map_restrict set_own_keys get_prop_def)
  next
    case False
    then have "map_of obj k = None" by (simp add: map_of_eq_None_iff)
    then show ?thesis
      using False by (simp add: entries_def map_of_map_restrict set_own_keys)
  qed
qed

lemma map_of_fullParams:
  "map_of (fullParams params t) = (map_of params)(''timestamp'' \<mapsto> JNum (Fin t))"
  by (simp add: fullParams_def map_of_set_prop map_of_entries)

lemma own_keys_empty: "(own_keys obj = []) = (obj = [])"
  using mset_own_keys [of obj] by (metis map_is_Nil_conv mset_zero_iff)

lemma transmitted_config:
  "transmitted (config rt method endpoint params t) =
   set_prop (fullParams params t) ''signature''
     (JStr (generateSignature rt
              (if params = [] \<and> method = ''GET'' then [(''timestamp'', JNum (Fin t))]
               else fullParams params t) (SECRET_KEY rt)))"
  by (simp add: transmitted_def config_def Let_def own_keys_empty)

lemma makeRequest_eq:
  "makeRequest rt method endpoint params sent =
   (axios rt sent (config rt method endpoint params (Date_now rt sent)),
    sent @ [config rt method endpoint params (Date_now rt sent)])"
  by (simp add: makeRequest_def Let_def)

lemma timestamp_not_index: "\<not> is_array_index ''timestamp''"
  by (simp add: is_array_index_def is_digit_def less_eq_char_def)

lemma queryString_timestamp:
  "queryString ns [(''timestamp'', JNum (Fin t))] = ''timestamp='' @ encodeURIComponent (ns t)"
proof -
  have "orderedParams [(''timestamp'', JNum (Fin t))] = [(''timestamp'', JNum (Fin t))]"
    by (simp add: orderedParams_eq get_prop_def)
  moreover have "entries [(''timestamp'', JNum (Fin t))] = [(''timestamp'', JNum (Fin t))]"
    using entries_plain [of "[''timestamp'']" "\<lambda>k. JNum (Fin t)"]
    by (simp add: timestamp_not_index)
  ultimately show ?thesis by (simp add: queryString_def)
qed

text \<open>
  C4: the signature that a request carries is to be computed over the one-entry mapping
  \<^verbatim>\<open>{timestamp}\<close> when the method is \<^verbatim>\<open>GET\<close> and the caller's mapping is empty, and
  over the caller's mapping with the timestamp added in every other case. The dispatcher
  of \<^verbatim>\<open>index.ts\<close> has no special case and puts the API key among the parameters before
  it signs: its balance query signs \<^verbatim>\<open>apiKey=AK&timestamp=1700000000000\<close>, where the
  dispatcher of the JavaScript entry point signs \<^verbatim>\<open>timestamp=1700000000000\<close>; and its
  request to close a position signs the API key with the caller's two parameters and
  the timestamp.
\<close>

theorem makeRequest_ts_signs_apiKey:
  "get_prop (transmitted (last (snd (getAccountBalance_ts (demo_rt (demo_exchange ''1'' ''1'')) []))))
     ''signature''
     = JStr ''hmac[SK](apiKey=AK&timestamp=1700000000000)''
   \<and> get_prop (transmitted (last (snd (getAccountBalance (demo_rt (demo_exchange ''1'' ''1'')) []))))
     ''signature''
     = JStr ''hmac[SK](timestamp=1700000000000)''
   \<and> get_prop (transmitted (last (snd (closePosition_ts (demo_rt (demo_exchange ''1'' ''1''))
       (JStr ''BTC-USDT'') (JStr ''LONG'') [])))) ''signature''
     = JStr ''hmac[SK](apiKey=AK&positionSide=LONG&symbol=BTC-USDT&timestamp=1700000000000)''
   \<and> get_prop (transmitted (last (snd (closePosition (demo_rt (demo_exchange ''1'' ''1''))
       (JStr ''BTC-USDT'') (JStr ''LONG'') [])))) ''signature''
     = JStr ''hmac[SK](positionSide=LONG&symbol=BTC-USDT&timestamp=1700000000000)''"
  by code_simp

text \<open>
  The dispatcher of the JavaScript entry point does sign as described: the one-entry
  mapping \<^verbatim>\<open>{timestamp}\<close> when the method is \<^verbatim>\<open>GET\<close> and the caller's mapping is empty,
  so that the signed string is \<^verbatim>\<open>timestamp=\<close> and the time; in every other case the
  merged mapping, which is the caller's mapping with the timestamp added.
\<close>

lemma makeRequest_signed_set:
  "(method = ''GET'' \<and> params = [] \<longrightarrow>
      get_prop (transmitted (last (snd (makeRequest rt method endpoint params sent)))) ''signature''
        = JStr (generateSignature rt [(''timestamp'', JNum (Fin (Date_now rt sent)))] (SECRET_KEY rt))
      \<and> generateSignature rt [(''timestamp'', JNum (Fin (Date_now rt sent)))] (SECRET_KEY rt)
        = HmacSHA256 rt (''timestamp='' @ encodeURIComponent (numToString rt (Date_now rt sent)))
            (SECRET_KEY rt))
   \<and> (\<not> (method = ''GET'' \<and> params = []) \<longrightarrow>
      get_prop (transmitted (last (snd (makeRequest rt method endpoint params sent)))) ''signature''
        = JStr (generateSignature rt (fullParams params (Date_now rt sent)) (SECRET_KEY rt))
      \<and> map_of (fullParams params (Date_now rt sent))
        = (map_of params)(''timestamp'' \<mapsto> JNum (Fin (Date_now rt sent))))"
proof -
  let ?t = "Date_now rt sent"
  let ?signed = "if params = [] \<and> method = ''GET'' then [(''timestamp'', JNum (Fin ?t))]
                 else fullParams params ?t"
  have "last (snd (makeRequest rt method endpoint params sent)) = config rt method endpoint params ?t"
    by (simp add: makeRequest_eq)
  then have sig: "get_prop (transmitted (last (snd (makeRequest rt method endpoint params sent))))
                    ''signature''
                  = JStr (generateSignature rt ?signed (SECRET_KEY rt))"
    by (simp add: transmitted_config get_prop_def map_of_set_prop)
  have one: "generateSignature rt [(''timestamp'', JNum (Fin ?t))] (SECRET_KEY rt)
             = HmacSHA256 rt (''timestamp='' @ encodeURIComponent (numToString rt ?t)) (SECRET_KEY rt)"
    by (simp add: generateSignature_def queryString_timestamp)
  show ?thesis
  proof (cases "method = ''GET'' \<and> params = []")
    case True
    then show ?thesis using sig one by simp
  next
    case False
    then have "?signed = fullParams params ?t" by auto
    then have "get_prop (transmitted (last (snd (makeRequest rt method endpoint params sent))))
                 ''signature''
               = JStr (generateSignature rt (fullParams params ?t) (SECRET_KEY rt))"
      using sig by simp
    then show ?thesis by (simp only: False map_of_fullParams simp_thms)
  qed
qed

lemma makeRequest_signed_set_example:
  "get_prop (transmitted (last (snd (makeRequest (demo_rt (demo_exchange ''1'' ''1'')) ''GET''
       ''/openApi/swap/v2/user/balance'' [] [])))) ''signature''
     = JStr ''hmac[SK](timestamp=1700000000000)''
   \<and> get_prop (transmitted (last (snd (makeRequest (demo_rt (demo_exchange ''1'' ''1'')) ''POST''
       ''/openApi/swap/v2/trade/closePosition''
       [(''symbol'', JStr ''BTC-USDT''), (''positionSide'', JStr ''LONG'')] [])))) ''signature''
     = JStr ''hmac[SK](positionSide=LONG&symbol=BTC-USDT&timestamp=1700000000000)''"
proof -
  let ?rt = "demo_rt (demo_exchange ''1'' ''1'')"
  let ?ps = "[(''symbol'', JStr ''BTC-USDT''), (''positionSide'', JStr ''LONG'')] :: int jsobj"
  have get: "''GET'' = ''GET'' \<and> ([] :: int jsobj) = []" by simp
  have post: "\<not> (''POST'' = ''GET'' \<and> ?ps = [])" by simp
  have a: "HmacSHA256 ?rt (''timestamp='' @ encodeURIComponent (numToString ?rt (Date_now ?rt [])))
             (SECRET_KEY ?rt)
           = ''hmac[SK](timestamp=1700000000000)''"
    by code_simp
  have b: "generateSignature ?rt (fullParams ?ps (Date_now ?rt [])) (SECRET_KEY ?rt)
           = ''hmac[SK](positionSide=LONG&symbol=BTC-USDT&timestamp=1700000000000)''"
    by code_simp
  have "get_prop (transmitted (last (snd (makeRequest ?rt ''GET''
            ''/openApi/swap/v2/user/balance'' [] [])))) ''signature''
        = JStr (HmacSHA256 ?rt (''timestamp='' @ encodeURIComponent (numToString ?rt (Date_now ?rt [])))
                  (SECRET_KEY ?rt))"
    using makeRequest_signed_set [of "''GET''" "[]" ?rt "''/openApi/swap/v2/user/balance''" "[]"] get
    by simp
  moreover have "get_prop (transmitted (last (snd (makeRequest ?rt ''POST''
            ''/openApi/swap/v2/trade/closePosition'' ?ps [])))) ''signature''
        = JStr (generateSignature ?rt (fullParams ?ps (Date_now ?rt [])) (SECRET_KEY ?rt))"
    using makeRequest_signed_set [of "''POST''" ?ps ?rt "''/openApi/swap/v2/trade/closePosition''" "[]"]
      post
    by simp
  ultimately show ?thesis unfolding a b by simp
qed

text \<open>
  C5: the API key is to travel in the \<^verbatim>\<open>X-BX-APIKEY\<close> header and nowhere else, and the
  transmitted parameters are to be the caller's and two more, the timestamp and the
  signature. The dispatcher of \<^verbatim>\<open>index.ts\<close> sends no header: the one request of its
  balance query carries the API key as a third parameter \<^verbatim>\<open>apiKey\<close>, in the query
  string, and the signature covers it.
\<close>

theorem makeRequest_ts_sends_apiKey:
  "snd (getAccountBalance_ts (demo_rt (demo_exchange ''1'' ''1'')) [])
   = [\<lparr>http_method = ''GET'',
       url = ''https://open-api.bingx.com/openApi/swap/v2/user/balance'',
       headers = [],
       query = Some [(''timestamp'', JNum (Fin 170000000000000)),
                     (''apiKey'', JStr ''AK''),
                     (''signature'', JStr ''hmac[SK](apiKey=AK&timestamp=1700000000000)'')],
       body = None\<rparr>]"
  by code_simp

text \<open>
  The dispatcher of the JavaScript entry point does as described: the API key travels in
  the \<^verbatim>\<open>X-BX-APIKEY\<close> header and nowhere else; the transmitted parameters are the
  caller's and two more, the timestamp and the signature, and the secret key enters the
  request only as the key of the hash.
\<close>

lemma makeRequest_transmits:
  "headers (last (snd (makeRequest rt method endpoint params sent))) = [(''X-BX-APIKEY'', API_KEY rt)]
   \<and> map_of (transmitted (last (snd (makeRequest rt method endpoint params sent))))
       = (map_of params)
           (''timestamp'' \<mapsto> JNum (Fin (Date_now rt sent)),
            ''signature'' \<mapsto>
               JStr (HmacSHA256 rt
                       (queryString (numToString rt)
                          (if method = ''GET'' \<and> params = []
                           then [(''timestamp'', JNum (Fin (Date_now rt sent)))]
                           else fullParams params (Date_now rt sent)))
                       (SECRET_KEY rt)))
   \<and> fst ` set (transmitted (last (snd (makeRequest rt method endpoint params sent))))
       = fst ` set params \<union> {''timestamp'', ''signature''}"
proof -
  let ?c = "config rt method endpoint params (Date_now rt sent)"
  have l: "last (snd (makeRequest rt method endpoint params sent)) = ?c"
    by (simp add: makeRequest_eq)
  have h: "headers ?c = [(''X-BX-APIKEY'', API_KEY rt)]"
    by (simp add: config_def Let_def)
  have m: "map_of (transmitted ?c)
       = (map_of params)
           (''timestamp'' \<mapsto> JNum (Fin (Date_now rt sent)),
            ''signature'' \<mapsto>
               JStr (HmacSHA256 rt
                       (queryString (numToString rt)
                          (if method = ''GET'' \<and> params = []
                           then [(''timestamp'', JNum (Fin (Date_now rt sent)))]
                           else fullParams params (Date_now rt sent)))
                       (SECRET_KEY rt)))"
    by (auto simp: transmitted_config map_of_set_prop map_of_fullParams generateSignature_def)
  have "dom (map_of (transmitted ?c)) = dom (map_of params) \<union> {''timestamp'', ''signature''}"
    unfolding m by auto
  then have k: "fst ` set (transmitted ?c) = fst ` set params \<union> {''timestamp'', ''signature''}"
    by (simp add: dom_map_of_conv_image_fst)
  show ?thesis unfolding l using h m k by blast
qed

lemma makeRequest_transmits_example:
  "headers (last (snd (makeRequest (demo_rt (demo_exchange ''1'' ''1'')) ''GET''
       ''/openApi/swap/v2/quote/price'' [(''symbol'', JStr ''BTC-USDT'')] []))) = [(''X-BX-APIKEY'', ''AK'')]
   \<and> fst ` set (transmitted (last (snd (makeRequest (demo_rt (demo_exchange ''1'' ''1'')) ''GET''
       ''/openApi/swap/v2/quote/price'' [(''symbol'', JStr ''BTC-USDT'')] []))))
     = {''symbol'', ''timestamp'', ''signature''}"
  using makeRequest_transmits [of "demo_rt (demo_exchange ''1'' ''1'')" "''GET''"
      "''/openApi/swap/v2/quote/price''" "[(''symbol'', JStr ''BTC-USDT'')]" "[]"]
  by (simp add: demo_rt_def insert_commute)

text \<open>
  C10: each of \<^verbatim>\<open>getOpenPositions\<close> and \<^verbatim>\<open>getPendingOrders\<close> is one \<^verbatim>\<open>GET\<close> dispatch
  to its first endpoint and returns the result of that dispatch; the endpoints under
  \<^verbatim>\<open>/openApi/swap/v2\<close> named after the first \<^verbatim>\<open>return\<close> are not requested.
\<close>

theorem list_helpers_single_dispatch:
  "getOpenPositions rt sent = makeRequest rt ''GET'' ''/openApi/contract/v1/allPosition'' [] sent
   \<and> getPendingOrders rt sent = makeRequest rt ''GET'' ''/openApi/contract/v1/allOrders'' [] sent
   \<and> length (snd (getOpenPositions rt sent)) = Suc (length sent)
   \<and> length (snd (getPendingOrders rt sent)) = Suc (length sent)
   \<and> url (last (snd (getOpenPositions rt sent))) = BASE_URL @ ''/openApi/contract/v1/allPosition''
   \<and> url (last (snd (getPendingOrders rt sent))) = BASE_URL @ ''/openApi/contract/v1/allOrders''
   \<and> http_method (last (snd (getOpenPositions rt sent))) = ''GET''
   \<and> http_method (last (snd (getPendingOrders rt sent))) = ''GET''
   \<and> fst (getOpenPositions rt sent) = axios rt sent (last (snd (getOpenPositions rt sent)))
   \<and> fst (getPendingOrders rt sent) = axios rt sent (last (snd (getPendingOrders rt sent)))
   \<and> url (last (snd (getOpenPositions rt sent))) \<noteq> BASE_URL @ ''/openApi/swap/v2/user/positions''
   \<and> url (last (snd (getPendingOrders rt sent))) \<noteq> BASE_URL @ ''/openApi/swap/v2/trade/openOrders''"
proof -
  let ?p = "config rt ''GET'' ''/openApi/contract/v1/allPosition'' [] (Date_now rt sent)"
  let ?o = "config rt ''GET'' ''/openApi/contract/v1/allOrders'' [] (Date_now rt sent)"
  have p: "getOpenPositions rt sent = (axios rt sent ?p, sent @ [?p])"
    and o: "getPendingOrders rt sent = (axios rt sent ?o, sent @ [?o])"
    by (simp_all add: getOpenPositions_def getPendingOrders_def makeRequest_eq)
  have up: "url ?p = BASE_URL @ ''/openApi/contract/v1/allPosition''"
    and uo: "url ?o = BASE_URL @ ''/openApi/contract/v1/allOrders''"
    and mp: "http_method ?p = ''GET''" and mo: "http_method ?o = ''GET''"
    by (simp_all add: config_def Let_def)
  have "getOpenPositions rt sent = makeRequest rt ''GET'' ''/openApi/contract/v1/allPosition'' [] sent"
    and "getPendingOrders rt sent = makeRequest rt ''GET'' ''/openApi/contract/v1/allOrders'' [] sent"
    by (simp_all add: getOpenPositions_def getPendingOrders_def)
  moreover have "length (snd (getOpenPositions rt sent)) = Suc (length sent)"
    and "length (snd (getPendingOrders rt sent)) = Suc (length sent)"
    by (simp_all add: p o)
  moreover have "url (last (snd (getOpenPositions rt sent))) = BASE_URL @ ''/openApi/contract/v1/allPosition''"
    and "url (last (snd (getPendingOrders rt sent))) = BASE_URL @ ''/openApi/contract/v1/allOrders''"
    and "http_method (last (snd (getOpenPositions rt sent))) = ''GET''"
    and "http_method (last (snd (getPendingOrders rt sent))) = ''GET''"
    by (simp_all add: p o up uo mp mo)
  moreover have "fst (getOpenPositions rt sent) = axios rt sent (last (snd (getOpenPositions rt sent)))"
    and "fst (getPendingOrders rt sent) = axios rt sent (last (snd (getPendingOrders rt sent)))"
    by (simp_all add: p o)
  moreover have "url (last (snd (getOpenPositions rt sent))) \<noteq> BASE_URL @ ''/openApi/swap/v2/user/positions''"
    and "url (last (snd (getPendingOrders rt sent))) \<noteq> BASE_URL @ ''/openApi/swap/v2/trade/openOrders''"
    by (simp_all add: p o up uo)
  ultimately show ?thesis by simp
qed

theorem list_helpers_single_dispatch_witness:
  "url (last (snd (getOpenPositions (demo_rt (demo_exchange ''1'' ''1'')) [])))
     = ''https://open-api.bingx.com/openApi/contract/v1/allPosition''
   \<and> url (last (snd (getPendingOrders (demo_rt (demo_exchange ''1'' ''1'')) [])))
     = ''https://open-api.bingx.com/openApi/contract/v1/allOrders''
   \<and> length (snd (getOpenPositions (demo_rt (demo_exchange ''1'' ''1'')) [])) = 1
   \<and> length (snd (getPendingOrders (demo_rt (demo_exchange ''1'' ''1'')) [])) = 1"
proof -
  let ?rt = "demo_rt (demo_exchange ''1'' ''1'')"
  note t = list_helpers_single_dispatch [of ?rt "[]"]
  have "url (last (snd (getOpenPositions ?rt []))) = BASE_URL @ ''/openApi/contract/v1/allPosition''"
    and "url (last (snd (getPendingOrders ?rt []))) = BASE_URL @ ''/openApi/contract/v1/allOrders''"
    and "length (snd (getOpenPositions ?rt [])) = Suc (length ([] :: int request list))"
    and "length (snd (getPendingOrders ?rt [])) = Suc (length ([] :: int request list))"
    using t by blast+
  then show ?thesis by (simp add: BASE_URL_def)
qed

section \<open>Properties of the Bulk Operations\<close>



























section \<open>Properties of the Price-Movement Trigger\<close>

lemma market_order_of_config:
  "market_order_of (config rt ''POST'' endpoint
       [(''symbol'', s), (''side'', d), (''orderType'', ty), (''quantity'', q)] t)
   = (''POST'', BASE_URL @ endpoint, s, d, ty, q)"
proof -
  let ?c = "config rt ''POST'' endpoint
       [(''symbol'', s), (''side'', d), (''orderType'', ty), (''quantity'', q)] t"
  have "http_method ?c = ''POST''" and "url ?c = BASE_URL @ endpoint"
    by (simp_all add: config_def Let_def)
  moreover have "get_prop (transmitted ?c) ''symbol'' = s"
    and "get_prop (transmitted ?c) ''side'' = d"
    and "get_prop (transmitted ?c) ''orderType'' = ty"
    and "get_prop (transmitted ?c) ''quantity'' = q"
    by (simp_all add: transmitted_config get_prop_def map_of_set_prop map_of_fullParams)
  ultimately show ?thesis by (simp add: market_order_of_def)
qed

lemma market_order_of_placeMarketOrder:
  "snd (placeMarketOrder rt symbol side quantity sent) = sent @ [order] \<Longrightarrow>
   market_order_of order
   = (''POST'', BASE_URL @ ''/openApi/contract/v1/trade/order'', symbol, side, JStr ''MARKET'',
      JNum (js_parseFloat rt quantity))
   \<and> fst (placeMarketOrder rt symbol side quantity sent) = axios rt sent order"
  by (auto simp: placeMarketOrder_def makeRequest_eq market_order_of_config)

lemma placeMarketOrder_one:
  "\<exists>order. snd (placeMarketOrder rt symbol side quantity sent) = sent @ [order]"
  by (simp add: placeMarketOrder_def makeRequest_eq)

text \<open>
  C8: when the price and the candles have arrived and both readings are Numbers, the
  trigger compares the current price with the close of the previous candle. If it is
  strictly greater, exactly one more request is issued, a market \<^verbatim>\<open>BUY\<close> order of the
  fixed quantity \<^verbatim>\<open>0.01\<close>, and its answer is the result; if it is strictly less, the
  same with \<^verbatim>\<open>SELL\<close>; if the two are equal, no further request is issued and the result
  is fulfilled with \<^verbatim>\<open>null\<close>.
\<close>

theorem simpleTradingStrategy_cases:
  assumes c1: "c1 = config rt ''GET'' ''/openApi/swap/v2/quote/price'' [(''symbol'', JStr symbol)]
                      (Date_now rt sent)"
    and a1: "axios rt sent c1 = (t1, Inr tickerData)"
    and p: "member tickerData ''price'' = Inr price"
    and c2: "c2 = config rt ''GET'' ''/openApi/swap/v2/quote/klines''
                    [(''symbol'', JStr symbol), (''interval'', JStr ''1m''),
                     (''limit'', num_lit rt ''2'')] (Date_now rt (sent @ [c1]))"
    and a2: "axios rt (sent @ [c1]) c2 = (t2, Inr klineData)"
    and k: "previous_close klineData = Inr closePrice"
    and cur: "js_parseFloat rt price = Fin currentPrice"
    and prev: "js_parseFloat rt closePrice = Fin previousPrice"
  shows "(currentPrice > previousPrice \<longrightarrow>
            (\<exists>order. snd (simpleTradingStrategy rt symbol sent) = sent @ [c1, c2, order]
               \<and> market_order_of order
                   = (''POST'', BASE_URL @ ''/openApi/contract/v1/trade/order'', JStr symbol,
                      JStr ''BUY'', JStr ''MARKET'', JNum (js_parseFloat rt (num_lit rt ''0.01'')))
               \<and> fst (simpleTradingStrategy rt symbol sent) = axios rt (sent @ [c1, c2]) order))
       \<and> (currentPrice < previousPrice \<longrightarrow>
            (\<exists>order. snd (simpleTradingStrategy rt symbol sent) = sent @ [c1, c2, order]
               \<and> market_order_of order
                   = (''POST'', BASE_URL @ ''/openApi/contract/v1/trade/order'', JStr symbol,
                      JStr ''SELL'', JStr ''MARKET'', JNum (js_parseFloat rt (num_lit rt ''0.01'')))
               \<and> fst (simpleTradingStrategy rt symbol sent) = axios rt (sent @ [c1, c2]) order))
       \<and> (currentPrice = previousPrice \<longrightarrow>
            simpleTradingStrategy rt symbol sent = ((t2, Inr Null), sent @ [c1, c2]))"
proof -
  have run: "simpleTradingStrategy rt symbol sent
     = (if previousPrice < currentPrice
        then placeMarketOrder rt (JStr symbol) (JStr ''BUY'') (num_lit rt ''0.01'') (sent @ [c1, c2])
        else if currentPrice < previousPrice
        then placeMarketOrder rt (JStr symbol) (JStr ''SELL'') (num_lit rt ''0.01'') (sent @ [c1, c2])
        else ((t2, Inr Null), sent @ [c1, c2]))"
    using a1 a2 unfolding c1 c2
    by (simp add: simpleTradingStrategy_def makeRequest_eq p k cur prev Let_def)
  have order: "\<exists>order. snd (placeMarketOrder rt (JStr symbol) side (num_lit rt ''0.01'') (sent @ [c1, c2]))
                  = sent @ [c1, c2, order]
               \<and> market_order_of order
                   = (''POST'', BASE_URL @ ''/openApi/contract/v1/trade/order'', JStr symbol,
                      side, JStr ''MARKET'', JNum (js_parseFloat rt (num_lit rt ''0.01'')))
               \<and> fst (placeMarketOrder rt (JStr symbol) side (num_lit rt ''0.01'') (sent @ [c1, c2]))
                   = axios rt (sent @ [c1, c2]) order" for side
  proof -
    obtain order where
      o: "snd (placeMarketOrder rt (JStr symbol) side (num_lit rt ''0.01'') (sent @ [c1, c2]))
          = (sent @ [c1, c2]) @ [order]"
      using placeMarketOrder_one by blast
    from market_order_of_placeMarketOrder [OF o] o show ?thesis by auto
  qed
  show ?thesis
    using order [of "JStr ''BUY''"] order [of "JStr ''SELL''"] by (auto simp: run)
qed

theorem simpleTradingStrategy_cases_witness:
  "(\<exists>order. snd (simpleTradingStrategy (demo_rt (demo_exchange ''101'' ''100'')) ''BTC-USDT'' [])
        = [config (demo_rt (demo_exchange ''101'' ''100'')) ''GET'' ''/openApi/swap/v2/quote/price''
             [(''symbol'', JStr ''BTC-USDT'')] 170000000000000,
           config (demo_rt (demo_exchange ''101'' ''100'')) ''GET'' ''/openApi/swap/v2/quote/klines''
             [(''symbol'', JStr ''BTC-USDT''), (''interval'', JStr ''1m''), (''limit'', JNum (Fin 200))]
             170000000000100,
           order]
      \<and> market_order_of order
          = (''POST'', ''https://open-api.bingx.com/openApi/contract/v1/trade/order'',
             JStr ''BTC-USDT'', JStr ''BUY'', JStr ''MARKET'', JNum (Fin 1)))
   \<and> (\<exists>order. snd (simpleTradingStrategy (demo_rt (demo_exchange ''99'' ''100'')) ''BTC-USDT'' [])
        = [config (demo_rt (demo_exchange ''99'' ''100'')) ''GET'' ''/openApi/swap/v2/quote/price''
             [(''symbol'', JStr ''BTC-USDT'')] 170000000000000,
           config (demo_rt (demo_exchange ''99'' ''100'')) ''GET'' ''/openApi/swap/v2/quote/klines''
             [(''symbol'', JStr ''BTC-USDT''), (''interval'', JStr ''1m''), (''limit'', JNum (Fin 200))]
             170000000000100,
           order]
      \<and> market_order_of order
          = (''POST'', ''https://open-api.bingx.com/openApi/contract/v1/trade/order'',
             JStr ''BTC-USDT'', JStr ''SELL'', JStr ''MARKET'', JNum (Fin 1)))
   \<and> simpleTradingStrategy (demo_rt (demo_exchange ''100'' ''100'')) ''BTC-USDT'' []
       = ((1, Inr Null),
          [config (demo_rt (demo_exchange ''100'' ''100'')) ''GET'' ''/openApi/swap/v2/quote/price''
             [(''symbol'', JStr ''BTC-USDT'')] 170000000000000,
           config (demo_rt (demo_exchange ''100'' ''100'')) ''GET'' ''/openApi/swap/v2/quote/klines''
             [(''symbol'', JStr ''BTC-USDT''), (''interval'', JStr ''1m''), (''limit'', JNum (Fin 200))]
             170000000000100])"
proof -
  let ?rt = "\<lambda>price previous. demo_rt (demo_exchange price previous)"
  let ?c1 = "\<lambda>price previous. config (?rt price previous) ''GET'' ''/openApi/swap/v2/quote/price''
             [(''symbol'', JStr ''BTC-USDT'')] 170000000000000"
  let ?c2 = "\<lambda>price previous. config (?rt price previous) ''GET'' ''/openApi/swap/v2/quote/klines''
             [(''symbol'', JStr ''BTC-USDT''), (''interval'', JStr ''1m''), (''limit'', JNum (Fin 200))]
             170000000000100"
  let ?ticker = "\<lambda>price. JObj [(''price'', JStr price)] :: int jsval"
  let ?kline = "\<lambda>previous. JObj [(''data'', JArr [JArr [JStr ''1'', JStr ''2'', JStr ''3'', JStr ''4'',
                                                       JStr previous], JArr []])] :: int jsval"
  have h1: "?c1 price previous
            = config (?rt price previous) ''GET'' ''/openApi/swap/v2/quote/price''
                [(''symbol'', JStr ''BTC-USDT'')] (Date_now (?rt price previous) [])"
    for price previous
    by (simp add: demo_rt_def)
  have h2: "axios (?rt price previous) [] (?c1 price previous) = (1, Inr (?ticker price))"
    for price previous
    by (simp add: demo_rt_def demo_exchange_def config_def Let_def BASE_URL_def)
  have h3: "member (?ticker price) ''price'' = Inr (JStr price)" for price
    by (simp add: get_prop_def)
  have h4: "?c2 price previous
            = config (?rt price previous) ''GET'' ''/openApi/swap/v2/quote/klines''
                [(''symbol'', JStr ''BTC-USDT''), (''interval'', JStr ''1m''),
                 (''limit'', num_lit (?rt price previous) ''2'')]
                (Date_now (?rt price previous) ([] @ [?c1 price previous]))"
    for price previous
    by (simp add: demo_rt_def num_lit_def demo_parseFloat_def)
  have h5: "axios (?rt price previous) ([] @ [?c1 price previous]) (?c2 price previous)
            = (1, Inr (?kline previous))"
    for price previous
    by (simp add: demo_rt_def demo_exchange_def config_def Let_def BASE_URL_def)
  have h6: "previous_close (?kline previous) = Inr (JStr previous)" for previous
    by code_simp
  have q: "js_parseFloat (?rt price previous) (num_lit (?rt price previous) ''0.01'') = Fin 1"
    for price previous
    by (simp add: js_parseFloat_def num_lit_def demo_rt_def demo_parseFloat_def demo_numToString_def)
  have f: "js_parseFloat (?rt price previous) (JStr ''101'') = Fin 10100"
    "js_parseFloat (?rt price previous) (JStr ''100'') = Fin 10000"
    "js_parseFloat (?rt price previous) (JStr ''99'') = Fin 9900"
    for price previous
    by (simp_all add: js_parseFloat_def demo_rt_def demo_parseFloat_def)
  have up: "(10100::int) > 10000" and down: "(9900::int) < 10000" by simp_all
  have buy: "\<exists>order. snd (simpleTradingStrategy (?rt ''101'' ''100'') ''BTC-USDT'' [])
        = [?c1 ''101'' ''100'', ?c2 ''101'' ''100'', order]
      \<and> market_order_of order
          = (''POST'', ''https://open-api.bingx.com/openApi/contract/v1/trade/order'',
             JStr ''BTC-USDT'', JStr ''BUY'', JStr ''MARKET'', JNum (Fin 1))"
    using simpleTradingStrategy_cases [OF h1 [of "''101''" "''100''"] h2 [of "''101''" "''100''"] h3 [of "''101''"] h4 [of "''101''" "''100''"]
        h5 [of "''101''" "''100''"] h6 [of "''100''"] f(1) [of "''101''" "''100''"] f(2) [of "''101''" "''100''"]] up
    by (auto simp: q BASE_URL_def)
  have sell: "\<exists>order. snd (simpleTradingStrategy (?rt ''99'' ''100'') ''BTC-USDT'' [])
        = [?c1 ''99'' ''100'', ?c2 ''99'' ''100'', order]
      \<and> market_order_of order
          = (''POST'', ''https://open-api.bingx.com/openApi/contract/v1/trade/order'',
             JStr ''BTC-USDT'', JStr ''SELL'', JStr ''MARKET'', JNum (Fin 1))"
    using simpleTradingStrategy_cases [OF h1 [of "''99''" "''100''"] h2 [of "''99''" "''100''"] h3 [of "''99''"] h4 [of "''99''" "''100''"]
        h5 [of "''99''" "''100''"] h6 [of "''100''"] f(3) [of "''99''" "''100''"] f(2) [of "''99''" "''100''"]] down
    by (auto simp: q BASE_URL_def)
  have same: "simpleTradingStrategy (?rt ''100'' ''100'') ''BTC-USDT'' []
       = ((1, Inr Null), [?c1 ''100'' ''100'', ?c2 ''100'' ''100''])"
    using simpleTradingStrategy_cases [OF h1 [of "''100''" "''100''"] h2 [of "''100''" "''100''"] h3 [of "''100''"] h4 [of "''100''" "''100''"]
        h5 [of "''100''" "''100''"] h6 [of "''100''"] f(2) [of "''100''" "''100''"] f(2) [of "''100''" "''100''"]]
    by simp
  show ?thesis using buy sell same by blast
qed

text \<open>
  When a request of the trigger fails, the \<^verbatim>\<open>catch\<close> block of the JavaScript entry
  point itself fails on the unbound name \<^verbatim>\<open>next\<close>, and the caller sees that error
  instead of the exchange's; in \<^verbatim>\<open>index.ts\<close> the caller sees the exchange's error.
\<close>

lemma simpleTradingStrategy_failure:
  "simpleTradingStrategy (demo_rt (\<lambda>sent r. (1, Inl (AxiosError ''Network Error'' None))))
     ''BTC-USDT'' []
   = ((1, Inl (ReferenceError ''next is not defined'')),
      [config (demo_rt (\<lambda>sent r. (1, Inl (AxiosError ''Network Error'' None)))) ''GET''
         ''/openApi/swap/v2/quote/price'' [(''symbol'', JStr ''BTC-USDT'')] 170000000000000])
   \<and> fst (simpleTradingStrategy_ts (demo_rt (\<lambda>sent r. (1, Inl (AxiosError ''Network Error'' (Some Null)))))
          ''BTC-USDT'' [])
   = (1, Inl (AxiosError ''Network Error'' (Some Null)))"
  by code_simp

section \<open>Properties of the Chat Command Front End\<close>

text \<open>Numerals and other arguments, as the specification's wording tells them apart.\<close>

lemma numeric_examples:
  "numeric ''1'' \<and> numeric ''0.5'' \<and> numeric ''-1'' \<and> numeric ''.5''
   \<and> \<not> numeric ''abc'' \<and> \<not> numeric [] \<and> \<not> numeric ''1.2.3'' \<and> \<not> numeric ''-''"
  by code_simp

lemma list_ex_upt2: "list_ex P [0..<2] = (P 0 \<or> P 1)"
  by (simp add: numeral_2_eq_2)

lemma list_ex_upt3: "list_ex P [0..<3] = (P 0 \<or> P 1 \<or> P 2)"
  by (simp add: numeral_3_eq_3 numeral_2_eq_2)

lemma list_ex_upt4: "list_ex P [0..<4] = (P 0 \<or> P 1 \<or> P 2 \<or> P 3)"
proof -
  have "[0..<4] = [0, 1, 2, 3]" by (simp add: upt_rec)
  then show ?thesis by simp
qed

lemma side_refused_iff:
  "\<not> falsy side \<Longrightarrow> side_refused rt side = (toUpperCase rt (the side) \<notin> set [''BUY'', ''SELL''])"
  by (cases side) (simp_all add: side_refused_def)

lemma quantity_refused_iff:
  "\<not> falsy quantity \<Longrightarrow>
   quantity_refused rt quantity
   = (isNaN (parseFloat rt (the quantity)) \<or> js_less_eq (parseFloat rt (the quantity)) (Fin 0))"
  by (cases quantity; cases "parseFloat rt (the quantity)")
     (simp_all add: quantity_refused_def isNaN_def)

lemma cmd_market_invalid:
  assumes "handler_refuses rt ''market'' text"
  shows "snd (cmd_market rt text sent) = sent
         \<and> (\<exists>m \<in> set validation_replies. fst (cmd_market rt text sent) = [m])"
proof -
  let ?as = "args_of text"
  from assms have v: "falsy (arg ?as 0) \<or> falsy (arg ?as 1) \<or> falsy (arg ?as 2)
      \<or> side_refused rt (arg ?as 1) \<or> quantity_refused rt (arg ?as 2)"
    by (simp add: handler_refuses_def required_args_def Let_def list_ex_upt3)
  show ?thesis
  proof (cases "falsy (arg ?as 0) \<or> falsy (arg ?as 1) \<or> falsy (arg ?as 2)")
    case True
    then show ?thesis
      by (simp add: cmd_market_def Let_def validation_replies_def)
  next
    case False
    then have s: "\<not> falsy (arg ?as 1)" and q: "\<not> falsy (arg ?as 2)" by simp_all
    from v False have "toUpperCase rt (the (arg ?as 1)) \<notin> set [''BUY'', ''SELL'']
        \<or> isNaN (parseFloat rt (the (arg ?as 2)))
        \<or> js_less_eq (parseFloat rt (the (arg ?as 2))) (Fin 0)"
      using side_refused_iff [OF s, of rt] quantity_refused_iff [OF q, of rt] by blast
    then show ?thesis
      using False by (auto simp: cmd_market_def Let_def validation_replies_def)
  qed
qed

lemma cmd_limit_invalid:
  assumes "handler_refuses rt ''limit'' text"
  shows "snd (cmd_limit rt text sent) = sent
         \<and> (\<exists>m \<in> set validation_replies. fst (cmd_limit rt text sent) = [m])"
proof -
  let ?as = "args_of text"
  from assms have v: "falsy (arg ?as 0) \<or> falsy (arg ?as 1) \<or> falsy (arg ?as 2)
      \<or> falsy (arg ?as 3) \<or> side_refused rt (arg ?as 1) \<or> quantity_refused rt (arg ?as 2)"
    by (simp add: handler_refuses_def required_args_def Let_def list_ex_upt4)
  show ?thesis
  proof (cases "falsy (arg ?as 0) \<or> falsy (arg ?as 1) \<or> falsy (arg ?as 2) \<or> falsy (arg ?as 3)")
    case True
    then show ?thesis
      by (simp add: cmd_limit_def Let_def validation_replies_def)
  next
    case False
    then have s: "\<not> falsy (arg ?as 1)" and q: "\<not> falsy (arg ?as 2)" by simp_all
    from v False have "toUpperCase rt (the (arg ?as 1)) \<notin> set [''BUY'', ''SELL'']
        \<or> isNaN (parseFloat rt (the (arg ?as 2)))
        \<or> js_less_eq (parseFloat rt (the (arg ?as 2))) (Fin 0)"
      using side_refused_iff [OF s, of rt] quantity_refused_iff [OF q, of rt] by blast
    then show ?thesis
      using False by (auto simp: cmd_limit_def Let_def validation_replies_def)
  qed
qed

lemma presence_invalid:
  "handler_refuses rt ''close'' text \<Longrightarrow>
     snd (cmd_close rt text sent) = sent
     \<and> (\<exists>m \<in> set validation_replies. fst (cmd_close rt text sent) = [m])"
  "handler_refuses rt ''cancel'' text \<Longrightarrow>
     snd (cmd_cancel rt text sent) = sent
     \<and> (\<exists>m \<in> set validation_replies. fst (cmd_cancel rt text sent) = [m])"
  "handler_refuses rt ''sl'' text \<Longrightarrow>
     snd (cmd_sl rt text sent) = sent
     \<and> (\<exists>m \<in> set validation_replies. fst (cmd_sl rt text sent) = [m])"
  "handler_refuses rt ''tp'' text \<Longrightarrow>
     snd (cmd_tp rt text sent) = sent
     \<and> (\<exists>m \<in> set validation_replies. fst (cmd_tp rt text sent) = [m])"
  "handler_refuses rt ''trailingstop'' text \<Longrightarrow>
     snd (cmd_trailingstop rt text sent) = sent
     \<and> (\<exists>m \<in> set validation_replies. fst (cmd_trailingstop rt text sent) = [m])"
  by (auto simp: handler_refuses_def required_args_def Let_def list_ex_upt2 list_ex_upt3
      cmd_close_def cmd_cancel_def cmd_sl_def cmd_tp_def cmd_trailingstop_def
      validation_replies_def)

lemma list_ex_none: "n = 0 \<Longrightarrow> list_ex P [0..<n] = False"
  by simp

lemma required_args_zero:
  "required_args name = 0 \<or> name = ''limit'' \<or> name = ''market'' \<or> name = ''trailingstop''
   \<or> name = ''close'' \<or> name = ''cancel'' \<or> name = ''sl'' \<or> name = ''tp''"
  by (auto simp: required_args_def)

lemma handler_refuses_named:
  assumes "handler_refuses rt name text"
  shows "name = ''limit'' \<or> name = ''market'' \<or> name = ''trailingstop''
   \<or> name = ''close'' \<or> name = ''cancel'' \<or> name = ''sl'' \<or> name = ''tp''"
proof (cases "required_args name = 0")
  case True
  have "list_ex (\<lambda>i. falsy (arg (args_of text) i)) [0..<required_args name] = False"
    by (rule list_ex_none [OF True])
  then have "name = ''market'' \<or> name = ''limit''"
    using assms unfolding handler_refuses_def Let_def by simp
  then show ?thesis by (rule disjE) simp_all
next
  case False
  then show ?thesis using required_args_zero [of name] by simp
qed

text \<open>
  C9: validation is to come before any call of an operation, and \<^verbatim>\<open>/market\<close> with a
  quantity that is not numeric is to be answered with a usage or error message and to
  issue no order. The handler tests what \<^verbatim>\<open>parseFloat\<close> reads from the quantity, and
  \<^verbatim>\<open>parseFloat\<close> reads a numeric prefix: \<^verbatim>\<open>/market BTC-USDT SELL 1abc\<close>, whose quantity
  is not numeric, places a market order to sell 1 and is answered with the result of
  the order.
\<close>

theorem market_accepts_numeric_prefix:
  "\<not> numeric ''1abc''
   \<and> map market_order_of
        (snd (bot_command (demo_rt (demo_exchange ''1'' ''1'')) ''market''
                ''/market BTC-USDT SELL 1abc'' []))
     = [(''POST'', ''https://open-api.bingx.com/openApi/contract/v1/trade/order'',
         JStr ''BTC-USDT'', JStr ''SELL'', JStr ''MARKET'', JNum (Fin 100))]
   \<and> map (take 20)
        (fst (bot_command (demo_rt (demo_exchange ''1'' ''1'')) ''market''
                ''/market BTC-USDT SELL 1abc'' []))
     = [''Market order placed:'']"
  by code_simp

text \<open>
  What the handlers do test comes before the call: when a test of the handler refuses the
  command (a leading argument is missing or empty, or, for the two order commands, the
  side is not \<^verbatim>\<open>BUY\<close> or \<^verbatim>\<open>SELL\<close>, or \<^verbatim>\<open>parseFloat\<close> reads no number or none above
  zero from the quantity) the handler replies with one usage or error message and issues
  no request.
\<close>

lemma handler_refuses_before_dispatch:
  assumes "handler_refuses rt name text"
  shows "snd (bot_command rt name text sent) = sent
         \<and> (\<exists>m \<in> set validation_replies. fst (bot_command rt name text sent) = [m])"
proof -
  from handler_refuses_named [OF assms]
  consider (limit) "name = ''limit''" | (market) "name = ''market''"
    | (trailingstop) "name = ''trailingstop''" | (close) "name = ''close''"
    | (cancel) "name = ''cancel''" | (sl) "name = ''sl''" | (tp) "name = ''tp''"
    by (elim disjE) simp_all
  then show ?thesis
  proof cases
    case limit
    have "bot_command rt ''limit'' text sent = cmd_limit rt text sent"
      by (simp add: bot_command_def)
    then show ?thesis using cmd_limit_invalid [of rt "text" sent] assms unfolding limit by simp
  next
    case market
    have "bot_command rt ''market'' text sent = cmd_market rt text sent"
      by (simp add: bot_command_def)
    then show ?thesis using cmd_market_invalid [of rt "text" sent] assms unfolding market by simp
  next
    case trailingstop
    have "bot_command rt ''trailingstop'' text sent = cmd_trailingstop rt text sent"
      by (simp add: bot_command_def)
    then show ?thesis using presence_invalid(5) [of rt "text" sent] assms unfolding trailingstop by simp
  next
    case close
    have "bot_command rt ''close'' text sent = cmd_close rt text sent"
      by (simp add: bot_command_def)
    then show ?thesis using presence_invalid(1) [of rt "text" sent] assms unfolding close by simp
  next
    case cancel
    have "bot_command rt ''cancel'' text sent = cmd_cancel rt text sent"
      by (simp add: bot_command_def)
    then show ?thesis using presence_invalid(2) [of rt "text" sent] assms unfolding cancel by simp
  next
    case sl
    have "bot_command rt ''sl'' text sent = cmd_sl rt text sent"
      by (simp add: bot_command_def)
    then show ?thesis using presence_invalid(3) [of rt "text" sent] assms unfolding sl by simp
  next
    case tp
    have "bot_command rt ''tp'' text sent = cmd_tp rt text sent"
      by (simp add: bot_command_def)
    then show ?thesis using presence_invalid(4) [of rt "text" sent] assms unfolding tp by simp
  qed
qed

lemma handler_refuses_example:
  "handler_refuses (demo_rt (demo_exchange ''1'' ''1'')) ''market'' ''/market BTC-USDT buy abc''
   \<and> bot_command (demo_rt (demo_exchange ''1'' ''1'')) ''market'' ''/market BTC-USDT buy abc'' []
       = ([''Quantity must be a positive number''], [])
   \<and> handler_refuses (demo_rt (demo_exchange ''1'' ''1'')) ''market'' ''/market BTC-USDT buy -1''
   \<and> snd (bot_command (demo_rt (demo_exchange ''1'' ''1'')) ''market'' ''/market BTC-USDT buy -1'' []) = []
   \<and> handler_refuses (demo_rt (demo_exchange ''1'' ''1'')) ''sl'' ''/sl BTC-USDT''
   \<and> snd (bot_command (demo_rt (demo_exchange ''1'' ''1'')) ''sl'' ''/sl BTC-USDT'' []) = []"
proof -
  let ?rt = "demo_rt (demo_exchange ''1'' ''1'')"
  have a: "handler_refuses ?rt ''market'' ''/market BTC-USDT buy abc''" by code_simp
  have b: "handler_refuses ?rt ''market'' ''/market BTC-USDT buy -1''" by code_simp
  have c: "handler_refuses ?rt ''sl'' ''/sl BTC-USDT''" by code_simp
  have r: "fst (bot_command ?rt ''market'' ''/market BTC-USDT buy abc'' [])
           = [''Quantity must be a positive number'']"
    by code_simp
  show ?thesis
    using a b c r handler_refuses_before_dispatch [OF a, of "[]"] handler_refuses_before_dispatch [OF b, of "[]"]
      handler_refuses_before_dispatch [OF c, of "[]"]
    by (metis prod.collapse)
qed

text \<open>A command that passes the tests does reach the exchange.\<close>

lemma valid_market_dispatches:
  "\<not> handler_refuses (demo_rt (demo_exchange ''1'' ''1'')) ''market'' ''/market BTC-USDT buy 0.5''
   \<and> map market_order_of
        (snd (bot_command (demo_rt (demo_exchange ''1'' ''1'')) ''market'' ''/market BTC-USDT buy 0.5'' []))
     = [(''POST'', ''https://open-api.bingx.com/openApi/contract/v1/trade/order'',
         JStr ''BTC-USDT'', JStr ''BUY'', JStr ''MARKET'', JNum (Fin 50))]"
  by code_simp

text \<open>
  What the handlers do not check passes through: the side of \<^verbatim>\<open>/close\<close> is not compared
  with \<^verbatim>\<open>LONG\<close> and \<^verbatim>\<open>SHORT\<close>, and the prices of \<^verbatim>\<open>/sl\<close>, \<^verbatim>\<open>/tp\<close>,
  \<^verbatim>\<open>/trailingstop\<close> and \<^verbatim>\<open>/limit\<close> are not parsed.
\<close>

lemma unchecked_arguments_dispatch:
  "map (call_of ''positionSide'')
     (snd (bot_command (demo_rt (demo_exchange ''1'' ''1'')) ''close'' ''/close BTC-USDT SIDEWAYS'' []))
     = [(''POST'', ''https://open-api.bingx.com/openApi/swap/v2/trade/closePosition'',
         JStr ''BTC-USDT'', JStr ''SIDEWAYS'')]
   \<and> map (call_of ''stopPrice'')
     (snd (bot_command (demo_rt (demo_exchange ''1'' ''1'')) ''sl'' ''/sl BTC-USDT abc'' []))
     = [(''POST'', ''https://open-api.bingx.com/openApi/swap/v2/trade/order'',
         JStr ''BTC-USDT'', JStr ''abc'')]"
  by code_simp

end
